theory Spec2Isabelle
  imports Main "HOL-Library.Word"
begin

section \<open>The trap boundary of the Nachos kernel (userprog/exception.cc)\<close>

text \<open>
  The development embeds \<^verbatim>\<open>ExceptionHandler\<close> and \<^verbatim>\<open>IncreasePC\<close> of
  \<^verbatim>\<open>code/userprog/exception.cc\<close>. The handler is a state transformer over the kernel
  objects it touches (the machine's registers and user memory, the file system, the
  console, the threads and the process table). Calls that do not return to the trap site
  (halting, finishing the thread, a failed assertion), calls that suspend the caller, and
  accesses the C++ language leaves undefined are outcomes of their own.
\<close>

subsection \<open>Machine words and the constants of the headers\<close>

type_synonym word32 = "32 word"

text \<open>
  The symbolic constants the handler uses are declared in \<^verbatim>\<open>syscall.h\<close> and
  \<^verbatim>\<open>machine.hh\<close>, which are not part of the given source. The model takes them as a
  parameter; \<open>nachos\<close> below is the assignment of the Nachos distribution.
\<close>

record machine_consts =
  SC_Halt :: word32
  SC_Create :: word32
  SC_Read :: word32
  SC_Write :: word32
  SC_Open :: word32
  SC_Close :: word32
  SC_Exit :: word32
  SC_Join :: word32
  SC_Exec :: word32
  ConsoleInput :: word32
  ConsoleOutput :: word32
  SYSCALL_EXCEPTION :: int
  PC_REG :: nat
  NEXT_PC_REG :: nat
  PREV_PC_REG :: nat

definition nachos :: machine_consts where
  "nachos = \<lparr> SC_Halt = 0, SC_Create = 4, SC_Read = 6, SC_Write = 7, SC_Open = 5,
      SC_Close = 8, SC_Exit = 1, SC_Join = 3, SC_Exec = 2,
      ConsoleInput = 0, ConsoleOutput = 1, SYSCALL_EXCEPTION = 1,
      PC_REG = 34, NEXT_PC_REG = 35, PREV_PC_REG = 36 \<rparr>"

text \<open>
  The labels of a C++ \<^verbatim>\<open>switch\<close> are pairwise different, or the file does not compile.
\<close>

definition case_labels :: "machine_consts \<Rightarrow> word32 list" where
  "case_labels K = [SC_Halt K, SC_Create K, SC_Read K, SC_Write K, SC_Open K,
      SC_Close K, SC_Exit K, SC_Join K, SC_Exec K]"

text \<open>
  The three program-counter registers are three different registers, and none of them
  is a register of the calling convention (\<open>r2\<close>, \<open>r4\<close>, \<open>r5\<close>, \<open>r6\<close>).
\<close>

definition pc_registers :: "machine_consts \<Rightarrow> nat list" where
  "pc_registers K = [PC_REG K, NEXT_PC_REG K, PREV_PC_REG K]"

definition machine_ok :: "machine_consts \<Rightarrow> bool" where
  "machine_ok K = (distinct (case_labels K) \<and> distinct (pc_registers K @ [2, 4, 5, 6]))"

subsection \<open>Kernel objects\<close>

datatype OpenFile = OpenFile string

datatype AddressSpace = AddressSpace OpenFile

text \<open>
  A thread, as far as the handler sees it: its name, its address space, its process
  identifier, its table of open files (slot \<open>h\<close> holds the file bound to handle \<open>h\<close>) and
  the exit status \<^verbatim>\<open>Finish\<close> records.
\<close>

record Thread =
  name :: string
  space :: "AddressSpace option"
  sid :: word32
  fileTable :: "OpenFile option list"
  exitStatus :: "word32 option"

text \<open>
  The calls that change a thread object, as they are made on it: the history of these
  calls is kept beside the threads, so that the order of two calls can be told.
\<close>

datatype thread_call =
    Called_new string
  | Called_AddFile OpenFile
  | Called_RemoveFile word32
  | Called_RemoveAllFiles
  | Called_Finish word32
  | Called_Fork word32

text \<open>
  Threads are heap objects shared between \<^verbatim>\<open>currentThread\<close>, the process table and the
  scheduler, so the model keeps a store from addresses to threads; \<open>nthreads\<close> is the next
  address \<^verbatim>\<open>new Thread\<close> hands out, and \<open>threadCalls\<close> lists the calls made so far, the
  oldest first, each with the address of the thread it was made on. Console input is the
  sequence of characters the console delivers from now on. User memory is the memory of
  the running address space: \<open>mapped\<close> tells the addresses its translation accepts. The
  kernel stack of the running thread has \<open>stackRoom\<close> bytes left beyond the frame of the
  handler.
\<close>

record kernel =
  registers :: "nat \<Rightarrow> word32"
  mainMemory :: "word32 \<Rightarrow> char"
  mapped :: "word32 \<Rightarrow> bool"
  stackRoom :: nat
  threadCalls :: "(nat \<times> thread_call) list"
  fileSystem :: "string set"
  consoleIn :: "nat \<Rightarrow> char"
  consoleOut :: "char list"
  threads :: "nat \<Rightarrow> Thread"
  nthreads :: nat
  currentThread :: nat
  pTable :: "nat option list"
  readyList :: "(nat \<times> word32) list"

datatype diagnostic =
    Unkown_syscall word32
  | Unexpected_user_mode_exception int word32
  | Number int

text \<open>
  Where the handler leaves the behaviour that the source and the specification define:
  a call through a null pointer, an access outside an array, an array declared with a
  negative number of elements, an array that does not fit the stack (all undefined in
  C++), and an addressing fault reported by a marshaling routine, whose handling the
  specification leaves open (section 7).
\<close>

datatype fault =
    NullDereference
  | BufferOverrun
  | NegativeArraySize
  | StackOverflow
  | AddressingFault

text \<open>
  How one call of the handler ends: it returns to the trap site (\<open>Resumed\<close>), the machine
  halts, the calling thread is finished, the calling thread is suspended inside a
  collaborator, an assertion fails after the diagnostics were printed, or the behaviour
  is not defined.
\<close>

datatype outcome =
    Resumed kernel
  | Halted kernel
  | Terminated kernel
  | Blocked kernel
  | Aborted "diagnostic list" kernel
  | Undefined fault

text \<open>
  A call the handler makes either returns, with the kernel it leaves, or it never
  returns to the handler and decides how the handler's call ends. The statements that
  follow a call in the source run only if the call returns.
\<close>

datatype call_result = Returned kernel | Left outcome

definition after :: "call_result \<Rightarrow> (kernel \<Rightarrow> outcome) \<Rightarrow> outcome" where
  "after r rest = (case r of Returned s \<Rightarrow> rest s | Left out \<Rightarrow> out)"

subsection \<open>The machine\<close>

definition ReadRegister :: "kernel \<Rightarrow> nat \<Rightarrow> word32" where
  "ReadRegister s r = registers s r"

definition WriteRegister :: "nat \<Rightarrow> word32 \<Rightarrow> kernel \<Rightarrow> kernel" where
  "WriteRegister r v s = s\<lparr>registers := (registers s)(r := v)\<rparr>"

text \<open>\<^verbatim>\<open>IncreasePC\<close>, lines 197 to 205. The addition is the machine's: it wraps at 32 bits.\<close>

definition IncreasePC :: "machine_consts \<Rightarrow> kernel \<Rightarrow> kernel" where
  "IncreasePC K s =
    (let pc = ReadRegister s (PC_REG K);
         s1 = WriteRegister (PREV_PC_REG K) pc s;
         pc = ReadRegister s1 (NEXT_PC_REG K);
         s2 = WriteRegister (PC_REG K) pc s1;
         pc = pc + 4
     in WriteRegister (NEXT_PC_REG K) pc s2)"

subsection \<open>Collaborators\<close>

text \<open>
  The handler calls into the user-memory marshaling routines, the file system, the
  console, the current thread and the process table. None of them is part of the given
  source; each is modelled from the contract the specification gives it.
\<close>

text \<open>
  Modelled from the spec: \<^verbatim>\<open>ReadStringFromUser\<close> is missing from the source. It copies a
  string from user memory into a kernel buffer of \<open>n\<close> bytes, byte by byte, and stops at
  the first NUL or when the buffer has room for the terminator only. The routine is
  given the contents of user memory; the names it reads below lie in mapped memory.
\<close>

fun ReadStringFromUser :: "(word32 \<Rightarrow> char) \<Rightarrow> word32 \<Rightarrow> nat \<Rightarrow> string" where
  "ReadStringFromUser m a n =
    (if n \<le> 1 then []
     else if m a = CHR 0x00 then []
     else m a # ReadStringFromUser m (a + 1) (n - 1))"

declare ReadStringFromUser.simps [simp del]

text \<open>
  Modelled from the spec: \<^verbatim>\<open>ReadBufferFromUser\<close> is missing from the source. It copies
  \<open>n\<close> bytes of user memory, from address \<open>a\<close> on, into a kernel buffer, byte by byte
  through the translation of the address space; it stops and reports an addressing fault
  at the first byte whose address the translation does not accept, and at the end of the
  address space when the range runs past it.
\<close>

primrec ReadBufferFromUser ::
  "(word32 \<Rightarrow> bool) \<Rightarrow> (word32 \<Rightarrow> char) \<Rightarrow> word32 \<Rightarrow> nat \<Rightarrow> fault + char list" where
  "ReadBufferFromUser ok m a 0 = Inr []"
| "ReadBufferFromUser ok m a (Suc n) =
    (if ok a \<and> (n = 0 \<or> a \<noteq> - 1) then
       (case ReadBufferFromUser ok m (a + 1) n of
          Inl f \<Rightarrow> Inl f
        | Inr cs \<Rightarrow> Inr (m a # cs))
     else Inl AddressingFault)"

text \<open>
  Modelled from the spec: \<^verbatim>\<open>WriteBufferToUser\<close> is missing from the source. It copies
  the bytes of a kernel buffer into user memory, from address \<open>a\<close> on, byte by byte
  through the translation of the address space; it stops and reports an addressing fault
  at the first byte whose address the translation does not accept, and at the end of the
  address space when the range runs past it.
\<close>

primrec WriteBufferToUser ::
  "(word32 \<Rightarrow> bool) \<Rightarrow> char list \<Rightarrow> word32 \<Rightarrow> (word32 \<Rightarrow> char) \<Rightarrow> fault + (word32 \<Rightarrow> char)" where
  "WriteBufferToUser ok [] a m = Inr m"
| "WriteBufferToUser ok (c # cs) a m =
    (if ok a \<and> (cs = [] \<or> a \<noteq> - 1) then WriteBufferToUser ok cs (a + 1) (m(a := c))
     else Inl AddressingFault)"

text \<open>
  Modelled from the spec: \<^verbatim>\<open>FileSystem::Create\<close> is missing from the source. It makes
  the name exist.
\<close>

definition Create :: "string \<Rightarrow> kernel \<Rightarrow> kernel" where
  "Create nm s = s\<lparr>fileSystem := insert nm (fileSystem s)\<rparr>"

text \<open>
  Modelled from the spec: \<^verbatim>\<open>FileSystem::Open\<close> is missing from the source. It returns
  the file of that name, or none.
\<close>

definition Open :: "kernel \<Rightarrow> string \<Rightarrow> OpenFile option" where
  "Open s nm = (if nm \<in> fileSystem s then Some (OpenFile nm) else None)"

text \<open>
  Modelled from the spec: \<^verbatim>\<open>SynchConsole::GetChar\<close> is missing from the source. It waits
  for the next character of the console and returns it.
\<close>

definition GetChar :: "kernel \<Rightarrow> char \<times> kernel" where
  "GetChar s = (consoleIn s 0, s\<lparr>consoleIn := (\<lambda>k. consoleIn s (Suc k))\<rparr>)"

text \<open>
  Modelled from the spec: \<^verbatim>\<open>SynchConsole::PutChar\<close> is missing from the source. It emits
  one character.
\<close>

definition PutChar :: "char \<Rightarrow> kernel \<Rightarrow> kernel" where
  "PutChar c s = s\<lparr>consoleOut := consoleOut s @ [c]\<rparr>"

text \<open>An assignment to a field of the thread object at address \<open>a\<close>.\<close>

definition update_thread :: "nat \<Rightarrow> (Thread \<Rightarrow> Thread) \<Rightarrow> kernel \<Rightarrow> kernel" where
  "update_thread a f s = s\<lparr>threads := (threads s)(a := f (threads s a))\<rparr>"

text \<open>The history grows by one call, made on the thread at address \<open>a\<close>.\<close>

definition called :: "nat \<Rightarrow> thread_call \<Rightarrow> kernel \<Rightarrow> kernel" where
  "called a c s = s\<lparr>threadCalls := threadCalls s @ [(a, c)]\<rparr>"

text \<open>
  Modelled from the spec: the search of \<^verbatim>\<open>Thread::AddFile\<close> for a handle is missing from
  the source. It finds the smallest handle that is free and is not one of the two console
  handles.
\<close>

definition free_handle :: "machine_consts \<Rightarrow> OpenFile option list \<Rightarrow> nat option" where
  "free_handle K tbl =
    find (\<lambda>h. tbl ! h = None \<and> of_nat h \<noteq> ConsoleInput K \<and> of_nat h \<noteq> ConsoleOutput K)
      [0..<length tbl]"

text \<open>
  Modelled from the spec: \<^verbatim>\<open>Thread::AddFile\<close> is missing from the source. It binds the
  file to the handle found and returns the handle, or returns \<open>-1\<close> when the table is
  full.
\<close>

definition AddFile :: "machine_consts \<Rightarrow> OpenFile \<Rightarrow> kernel \<Rightarrow> word32 \<times> kernel" where
  "AddFile K f s =
    (let s0 = called (currentThread s) (Called_AddFile f) s
     in case free_handle K (fileTable (threads s (currentThread s))) of
          None \<Rightarrow> (- 1, s0)
        | Some h \<Rightarrow>
            (of_nat h,
             update_thread (currentThread s)
               (\<lambda>t. t\<lparr>fileTable := (fileTable t)[h := Some f]\<rparr>) s0))"

text \<open>
  Modelled from the spec: \<^verbatim>\<open>Thread::RemoveFile\<close> is missing from the source. It frees a
  bound handle and ignores any other.
\<close>

definition RemoveFile :: "word32 \<Rightarrow> kernel \<Rightarrow> kernel" where
  "RemoveFile fid s =
    (let s0 = called (currentThread s) (Called_RemoveFile fid) s
     in if 0 \<le> sint fid \<and> nat (sint fid) < length (fileTable (threads s (currentThread s)))
        then update_thread (currentThread s)
               (\<lambda>t. t\<lparr>fileTable := (fileTable t)[nat (sint fid) := None]\<rparr>) s0
        else s0)"

text \<open>
  Modelled from the spec: \<^verbatim>\<open>Thread::RemoveAllFiles\<close> is missing from the source. It
  frees every handle of the calling thread.
\<close>

definition RemoveAllFiles :: "kernel \<Rightarrow> kernel" where
  "RemoveAllFiles s =
    update_thread (currentThread s)
      (\<lambda>t. t\<lparr>fileTable := replicate (length (fileTable t)) None\<rparr>)
      (called (currentThread s) Called_RemoveAllFiles s)"

text \<open>
  Modelled from the spec: \<^verbatim>\<open>Thread::Finish\<close> is missing from the source. It records the
  status in the calling thread, which raises the thread's completion signal; \<open>Finish\<close> is
  the kernel the call leaves.
\<close>

definition Finish :: "word32 \<Rightarrow> kernel \<Rightarrow> kernel" where
  "Finish status s =
    update_thread (currentThread s) (\<lambda>t. t\<lparr>exitStatus := Some status\<rparr>)
      (called (currentThread s) (Called_Finish status) s)"

text \<open>
  Modelled from the spec: \<^verbatim>\<open>Thread::Finish\<close> does not return to its caller. The calling
  thread is terminated in the kernel \<open>Finish\<close> leaves and never runs again.
\<close>

definition call_Finish :: "word32 \<Rightarrow> kernel \<Rightarrow> call_result" where
  "call_Finish status s = Left (Terminated (Finish status s))"

text \<open>
  Modelled from the spec: \<^verbatim>\<open>Thread::Join\<close> is missing from the source. It returns once
  the completion signal of the thread it is called on is raised, and suspends the caller
  until then; \<open>finished\<close> is the test it waits for.
\<close>

definition finished :: "kernel \<Rightarrow> nat \<Rightarrow> bool" where
  "finished s a = (exitStatus (threads s a) \<noteq> None)"

text \<open>
  Modelled from the spec: the process table's \<^verbatim>\<open>Get\<close> is missing from the source. Slot
  \<open>i\<close> of the table holds the thread registered under the identifier \<open>i\<close>; \<^verbatim>\<open>Get\<close>
  returns none (the null pointer) for an identifier that is not bound.
\<close>

definition Get :: "kernel \<Rightarrow> word32 \<Rightarrow> nat option" where
  "Get s pid =
    (if 0 \<le> sint pid \<and> nat (sint pid) < length (pTable s) then pTable s ! nat (sint pid)
     else None)"

text \<open>The first identifier of the process table that is not bound.\<close>

fun first_free :: "nat option list \<Rightarrow> nat" where
  "first_free [] = 0"
| "first_free (None # xs) = 0"
| "first_free (Some a # xs) = Suc (first_free xs)"

text \<open>
  Modelled from the spec: the process table's registration is missing from the source.
  It binds the thread to the first free identifier and returns the identifier.
\<close>

definition Register :: "nat \<Rightarrow> nat option list \<Rightarrow> nat \<times> nat option list" where
  "Register a tbl =
    (let i = first_free tbl
     in (i, if i < length tbl then tbl[i := Some a] else tbl @ [Some a]))"

text \<open>
  Modelled from the spec: the constructor of \<^verbatim>\<open>Thread\<close> is missing from the source.
  \<^verbatim>\<open>new Thread\<close> allocates a thread with an empty descriptor table as large as its
  creator's and registers it in the process table, which gives it the identifier
  \<^verbatim>\<open>GetSid\<close> returns.
\<close>

definition new_Thread :: "string \<Rightarrow> kernel \<Rightarrow> nat \<times> kernel" where
  "new_Thread nm s =
    (let a = nthreads s;
         (i, tbl) = Register a (pTable s);
         t = \<lparr> name = nm, space = None, sid = of_nat i,
               fileTable = replicate (length (fileTable (threads s (currentThread s)))) None,
               exitStatus = None \<rparr>
     in (a, called a (Called_new nm)
              (s\<lparr>threads := (threads s)(a := t), nthreads := Suc a, pTable := tbl\<rparr>)))"

text \<open>
  Modelled from the spec: \<^verbatim>\<open>Thread::Fork\<close> and \<^verbatim>\<open>SaveArgs\<close> are missing from the source.
  \<^verbatim>\<open>Fork\<close> enqueues the thread, to start in \<^verbatim>\<open>InitUserProc\<close> with the argument vector
  \<^verbatim>\<open>SaveArgs\<close> took from the user address \<open>pargs\<close>; the caller is not suspended.
\<close>

definition Fork :: "nat \<Rightarrow> word32 \<Rightarrow> kernel \<Rightarrow> kernel" where
  "Fork a pargs s = called a (Called_Fork pargs) (s\<lparr>readyList := readyList s @ [(a, pargs)]\<rparr>)"

subsection \<open>The buffer and the loops of Read and Write\<close>

text \<open>
  Lines 79 and 103, the declaration \<^verbatim>\<open>char buffer[size]\<close>. It stands before the test of
  the handle and makes no test of \<open>size\<close>. The array is an automatic variable of \<open>size\<close>
  elements on the kernel stack: a negative \<open>size\<close> is undefined, and so is a \<open>size\<close>
  beyond the room the stack has left. The elements are not initialised; both cases write
  every element before they read it.
\<close>

definition declare_buffer :: "word32 \<Rightarrow> kernel \<Rightarrow> fault + char list" where
  "declare_buffer sz s =
    (if sint sz < 0 then Inl NegativeArraySize
     else if stackRoom s < nat (sint sz) then Inl StackOverflow
     else Inr (replicate (nat (sint sz)) (CHR 0x00)))"

text \<open>
  Lines 84 to 87 and 108 to 111. The counter \<open>i\<close> is unsigned and the comparison
  \<^verbatim>\<open>i < size\<close> converts \<open>size\<close> to unsigned, so the bound \<open>n\<close> is \<open>unat size\<close>. The buffer
  \<^verbatim>\<open>char buffer[size]\<close> has \<open>cap = sint size\<close> elements; an access at an index that is not
  below \<open>cap\<close> is outside the array.
\<close>

function Read_loop :: "nat \<Rightarrow> nat \<Rightarrow> int \<Rightarrow> char list \<Rightarrow> kernel \<Rightarrow> fault + (char list \<times> nat \<times> kernel)" where
  "Read_loop i n cap buffer s =
    (if i < n then
       (let (c, s1) = GetChar s
        in if int i < cap then Read_loop (Suc i) n cap (buffer[i := c]) s1
           else Inl BufferOverrun)
     else Inr (buffer, i, s))"
  by pat_completeness auto
termination
  by (relation "measure (\<lambda>(i, n, cap, buffer, s). n - i)") auto

declare Read_loop.simps [simp del]

function Write_loop :: "nat \<Rightarrow> nat \<Rightarrow> int \<Rightarrow> char list \<Rightarrow> kernel \<Rightarrow> fault + (nat \<times> kernel)" where
  "Write_loop i n cap buffer s =
    (if i < n then
       (if int i < cap then Write_loop (Suc i) n cap buffer (PutChar (buffer ! i) s)
        else Inl BufferOverrun)
     else Inr (i, s))"
  by pat_completeness auto
termination
  by (relation "measure (\<lambda>(i, n, cap, buffer, s). n - i)") auto

declare Write_loop.simps [simp del]

subsection \<open>The handler\<close>

text \<open>
  \<^verbatim>\<open>ExceptionHandler\<close>, lines 51 to 195, one definition for each \<^verbatim>\<open>case\<close> of the switch.
\<close>

text \<open>Lines 64 to 72.\<close>

definition case_Create :: "machine_consts \<Rightarrow> kernel \<Rightarrow> outcome" where
  "case_Create K s =
    (let fname = ReadRegister s 4;
         nm = ReadStringFromUser (mainMemory s) fname 256
     in Resumed (IncreasePC K (Create nm s)))"

text \<open>
  Lines 74 to 95. \<open>readLength\<close> is the counter \<open>i\<close> converted back to \<^verbatim>\<open>int\<close>. What
  \<^verbatim>\<open>WriteBufferToUser\<close> reports is not looked at in the source; what follows an
  addressing fault is left open.
\<close>

definition case_Read :: "machine_consts \<Rightarrow> kernel \<Rightarrow> outcome" where
  "case_Read K s =
    (let from = ReadRegister s 4;
         size = ReadRegister s 5;
         id = ReadRegister s 6
     in case declare_buffer size s of
          Inl f \<Rightarrow> Undefined f
        | Inr buffer \<Rightarrow>
            if id = ConsoleInput K then
              (case Read_loop 0 (unat size) (sint size) buffer s of
                 Inl f \<Rightarrow> Undefined f
               | Inr (buffer, i, s1) \<Rightarrow>
                   (case WriteBufferToUser (mapped s1) (take (unat size) buffer) from
                           (mainMemory s1) of
                      Inl f \<Rightarrow> Undefined f
                    | Inr m \<Rightarrow>
                        let s2 = s1\<lparr>mainMemory := m\<rparr>;
                            readLength = of_nat i
                        in Resumed (IncreasePC K (WriteRegister 2 readLength s2))))
            else Resumed (IncreasePC K (WriteRegister 2 0 s)))"

text \<open>
  Lines 97 to 117. \<^verbatim>\<open>ReadBufferFromUser\<close> fills the elements of the buffer. What it
  reports is not looked at in the source; what follows an addressing fault is left open.
\<close>

definition case_Write :: "machine_consts \<Rightarrow> kernel \<Rightarrow> outcome" where
  "case_Write K s =
    (let from = ReadRegister s 4;
         size = ReadRegister s 5;
         id = ReadRegister s 6
     in case declare_buffer size s of
          Inl f \<Rightarrow> Undefined f
        | Inr buffer \<Rightarrow>
            if id = ConsoleOutput K then
              (case ReadBufferFromUser (mapped s) (mainMemory s) from (length buffer) of
                 Inl f \<Rightarrow> Undefined f
               | Inr buffer \<Rightarrow>
                   (case Write_loop 0 (unat size) (sint size) buffer s of
                      Inl f \<Rightarrow> Undefined f
                    | Inr (i, s1) \<Rightarrow>
                        let writeLength = of_nat i
                        in Resumed (IncreasePC K (WriteRegister 2 writeLength s1))))
            else Resumed (IncreasePC K (WriteRegister 2 0 s)))"

text \<open>
  Lines 119 to 134. The handle \<open>fid\<close> (\<open>-1\<close> when the file does not exist) is computed
  and not used after the block: no register is written. \<^verbatim>\<open>delete file\<close> frees an object
  the model does not keep.
\<close>

definition case_Open :: "machine_consts \<Rightarrow> kernel \<Rightarrow> outcome" where
  "case_Open K s =
    (let pname = ReadRegister s 4;
         nm = ReadStringFromUser (mainMemory s) pname 256
     in case Open s nm of
          None \<Rightarrow> Resumed (IncreasePC K s)
        | Some file \<Rightarrow>
            (let (fid, s1) = AddFile K file s
             in Resumed (IncreasePC K s1)))"

text \<open>Lines 136 to 142.\<close>

definition case_Close :: "machine_consts \<Rightarrow> kernel \<Rightarrow> outcome" where
  "case_Close K s =
    (let fid = ReadRegister s 4
     in Resumed (IncreasePC K (RemoveFile fid s)))"

text \<open>
  Lines 144 to 151. The \<^verbatim>\<open>IncreasePC\<close> of line 150 follows the call of \<^verbatim>\<open>Finish\<close>.
\<close>

definition case_Exit :: "machine_consts \<Rightarrow> kernel \<Rightarrow> outcome" where
  "case_Exit K s =
    (let status = ReadRegister s 4;
         s1 = RemoveAllFiles s
     in after (call_Finish status s1) (\<lambda>s2. Resumed (IncreasePC K s2)))"

text \<open>
  Lines 153 to 161. The pointer \<^verbatim>\<open>pTable->Get\<close> returns is used without a test.
\<close>

definition case_Join :: "machine_consts \<Rightarrow> kernel \<Rightarrow> outcome" where
  "case_Join K s =
    (let pid = ReadRegister s 4
     in case Get s pid of
          None \<Rightarrow> Undefined NullDereference
        | Some thread \<Rightarrow>
            if finished s thread then Resumed (IncreasePC K (WriteRegister 2 0 s))
            else Blocked s)"

text \<open>Lines 163 to 182.\<close>

definition case_Exec :: "machine_consts \<Rightarrow> kernel \<Rightarrow> outcome" where
  "case_Exec K s =
    (let pname = ReadRegister s 4;
         pargs = ReadRegister s 5;
         nm = ReadStringFromUser (mainMemory s) pname 256
     in case Open s nm of
          None \<Rightarrow> Resumed (IncreasePC K (WriteRegister 2 (- 1) s))
        | Some file \<Rightarrow>
            (let (t, s1) = new_Thread nm s;
                 as = AddressSpace file;
                 s2 = update_thread t (\<lambda>th. th\<lparr>space := Some as\<rparr>) s1;
                 sid = sid (threads s2 t);
                 s3 = Fork t pargs s2
             in Resumed (IncreasePC K (WriteRegister 2 sid s3))))"

definition ExceptionHandler :: "machine_consts \<Rightarrow> int \<Rightarrow> kernel \<Rightarrow> outcome" where
  "ExceptionHandler K which s =
    (let type = ReadRegister s 2
     in if which = SYSCALL_EXCEPTION K then
          (if type = SC_Halt K then Halted s
           else if type = SC_Create K then case_Create K s
           else if type = SC_Read K then case_Read K s
           else if type = SC_Write K then case_Write K s
           else if type = SC_Open K then case_Open K s
           else if type = SC_Close K then case_Close K s
           else if type = SC_Exit K then case_Exit K s
           else if type = SC_Join K then case_Join K s
           else if type = SC_Exec K then case_Exec K s
           else Aborted [Unkown_syscall type] s)
        else Aborted [Unexpected_user_mode_exception which type,
                      Number (SYSCALL_EXCEPTION K)] s)"

subsection \<open>Observing an outcome\<close>

text \<open>
  What the caller finds in register \<open>r\<close>, in the threads, on the console and in its
  memory, if the handler returns to it.
\<close>

definition returns :: "outcome \<Rightarrow> bool" where
  "returns out = (case out of Resumed s \<Rightarrow> True | _ \<Rightarrow> False)"

definition register_after :: "nat \<Rightarrow> outcome \<Rightarrow> word32 option" where
  "register_after r out = (case out of Resumed s \<Rightarrow> Some (registers s r) | _ \<Rightarrow> None)"

definition threads_after :: "outcome \<Rightarrow> (nat \<Rightarrow> Thread) option" where
  "threads_after out = (case out of Resumed s \<Rightarrow> Some (threads s) | _ \<Rightarrow> None)"

definition console_out_after :: "outcome \<Rightarrow> string option" where
  "console_out_after out = (case out of Resumed s \<Rightarrow> Some (consoleOut s) | _ \<Rightarrow> None)"

definition console_in_after :: "outcome \<Rightarrow> (nat \<Rightarrow> char) option" where
  "console_in_after out = (case out of Resumed s \<Rightarrow> Some (consoleIn s) | _ \<Rightarrow> None)"

definition memory_after :: "outcome \<Rightarrow> (word32 \<Rightarrow> char) option" where
  "memory_after out = (case out of Resumed s \<Rightarrow> Some (mainMemory s) | _ \<Rightarrow> None)"

definition calls_after :: "outcome \<Rightarrow> (nat \<times> thread_call) list option" where
  "calls_after out = (case out of Resumed s \<Rightarrow> Some (threadCalls s) | _ \<Rightarrow> None)"

text \<open>The kernel a call of the handler leaves, however the call ends.\<close>

definition kernel_after :: "outcome \<Rightarrow> kernel option" where
  "kernel_after out =
    (case out of
       Resumed s \<Rightarrow> Some s
     | Halted s \<Rightarrow> Some s
     | Terminated s \<Rightarrow> Some s
     | Blocked s \<Rightarrow> Some s
     | Aborted ds s \<Rightarrow> Some s
     | Undefined f \<Rightarrow> None)"

subsection \<open>Concrete kernel states\<close>

text \<open>
  A kernel right after boot: one thread, registered as process 0, an empty file system,
  a console that delivers \<open>a\<close> for ever, the first 4096 bytes of user memory mapped,
  1024 bytes of kernel stack left, no call made yet on a thread. \<open>trap\<close> makes thread
  \<open>a\<close> the running thread and loads the registers of the calling convention with a
  request; \<open>poke\<close> puts a string into user memory.
\<close>

definition main_thread :: Thread where
  "main_thread = \<lparr> name = ''main'', space = None, sid = 0,
      fileTable = replicate 4 None, exitStatus = None \<rparr>"

definition boot :: kernel where
  "boot = \<lparr> registers = (\<lambda>r. 0)(34 := 64, 35 := 68), mainMemory = (\<lambda>a. CHR 0x00),
      mapped = (\<lambda>a. a < 4096), stackRoom = 1024, threadCalls = [],
      fileSystem = {}, consoleIn = (\<lambda>k. CHR ''a''), consoleOut = [],
      threads = (\<lambda>a. main_thread), nthreads = 1, currentThread = 0,
      pTable = [Some 0], readyList = [] \<rparr>"

definition trap :: "nat \<Rightarrow> word32 \<Rightarrow> word32 \<Rightarrow> word32 \<Rightarrow> word32 \<Rightarrow> kernel \<Rightarrow> kernel" where
  "trap a code a1 a2 a3 s =
    s\<lparr>currentThread := a, registers := (registers s)(2 := code, 4 := a1, 5 := a2, 6 := a3)\<rparr>"

primrec store :: "char list \<Rightarrow> word32 \<Rightarrow> (word32 \<Rightarrow> char) \<Rightarrow> word32 \<Rightarrow> char" where
  "store [] a m = m"
| "store (c # cs) a m = store cs (a + 1) (m(a := c))"

definition poke :: "word32 \<Rightarrow> string \<Rightarrow> kernel \<Rightarrow> kernel" where
  "poke a cs s = s\<lparr>mainMemory := store cs a (mainMemory s)\<rparr>"

text \<open>
  The main thread asks to open, and to execute, a file that was never created; it asks
  to execute a program that exists.
\<close>

definition open_missing :: kernel where
  "open_missing = trap 0 5 100 0 0 (poke 100 ''missing.txt'' boot)"


definition exec_prog :: kernel where
  "exec_prog = trap 0 2 100 0 0 (poke 100 ''prog'' (Create ''prog'' boot))"

text \<open>
  A kernel with a second process, thread 1 registered as process 1, that has one file
  open. The child calls \<^verbatim>\<open>Exit(42)\<close>; the parent calls \<^verbatim>\<open>Join(1)\<close> after that, or before
  it; the main thread joins a process that does not exist.
\<close>

definition child :: Thread where
  "child = \<lparr> name = ''prog'', space = Some (AddressSpace (OpenFile ''prog'')), sid = 1,
      fileTable = [None, None, Some (OpenFile ''data''), None], exitStatus = None \<rparr>"

definition two_processes :: kernel where
  "two_processes = boot\<lparr>fileSystem := {''prog'', ''data''},
      threads := (\<lambda>a. main_thread)(1 := child), nthreads := 2, pTable := [Some 0, Some 1]\<rparr>"

definition child_exits :: kernel where
  "child_exits = trap 1 1 42 0 0 two_processes"

definition parent_joins :: kernel where
  "parent_joins = trap 0 3 1 0 0 (Finish 42 (RemoveAllFiles child_exits))"

definition parent_joins_early :: kernel where
  "parent_joins_early = trap 0 3 1 0 0 two_processes"

definition join_unknown :: kernel where
  "join_unknown = trap 0 3 7 0 0 boot"

text \<open>
  Requests to read and to write: two characters from the console, three characters to
  the console, the same with a handle that is not a console handle, and with the size
  \<open>-1\<close>; a size of 2000 bytes, more than the stack has left; a buffer at the unmapped
  address 65536.
\<close>

definition read_two :: kernel where
  "read_two = trap 0 6 200 2 0 boot"

definition write_abc :: kernel where
  "write_abc = trap 0 7 100 3 1 (poke 100 ''abc'' boot)"

definition read_other_handle :: kernel where
  "read_other_handle = trap 0 6 200 2 2 boot"

definition write_other_handle :: kernel where
  "write_other_handle = trap 0 7 100 3 2 (poke 100 ''abc'' boot)"

definition read_negative :: kernel where
  "read_negative = trap 0 6 200 (- 1) 0 boot"

definition write_negative :: kernel where
  "write_negative = trap 0 7 100 (- 1) 1 (poke 100 ''abc'' boot)"

definition read_negative_other_handle :: kernel where
  "read_negative_other_handle = trap 0 6 200 (- 1) 2 boot"

definition write_negative_other_handle :: kernel where
  "write_negative_other_handle = trap 0 7 100 (- 1) 2 boot"

definition read_too_large :: kernel where
  "read_too_large = trap 0 6 200 2000 2 boot"

definition write_too_large :: kernel where
  "write_too_large = trap 0 7 100 2000 1 boot"

definition read_unmapped :: kernel where
  "read_unmapped = trap 0 6 65536 2 0 boot"

definition write_unmapped :: kernel where
  "write_unmapped = trap 0 7 65536 3 1 boot"

section \<open>Auxiliary facts\<close>

subsection \<open>The constants of the Nachos distribution\<close>

lemma machine_ok_nachos: "machine_ok nachos"
  by (simp add: machine_ok_def nachos_def case_labels_def pc_registers_def)

lemma nachos_labels: "distinct (case_labels nachos)"
  using machine_ok_nachos by (simp add: machine_ok_def)

lemma nachos_fields:
  "SC_Halt nachos = 0" "SC_Create nachos = 4" "SC_Read nachos = 6" "SC_Write nachos = 7"
  "SC_Open nachos = 5" "SC_Close nachos = 8" "SC_Exit nachos = 1" "SC_Join nachos = 3"
  "SC_Exec nachos = 2" "ConsoleInput nachos = 0" "ConsoleOutput nachos = 1"
  "SYSCALL_EXCEPTION nachos = 1" "PC_REG nachos = 34" "NEXT_PC_REG nachos = 35"
  "PREV_PC_REG nachos = 36"
  by (simp_all add: nachos_def)

subsection \<open>Dispatch\<close>

lemma dispatch:
  assumes "distinct (case_labels K)"
  shows "registers s 2 = SC_Read K \<Longrightarrow> ExceptionHandler K (SYSCALL_EXCEPTION K) s = case_Read K s"
    and "registers s 2 = SC_Write K \<Longrightarrow> ExceptionHandler K (SYSCALL_EXCEPTION K) s = case_Write K s"
    and "registers s 2 = SC_Open K \<Longrightarrow> ExceptionHandler K (SYSCALL_EXCEPTION K) s = case_Open K s"
    and "registers s 2 = SC_Exit K \<Longrightarrow> ExceptionHandler K (SYSCALL_EXCEPTION K) s = case_Exit K s"
    and "registers s 2 = SC_Join K \<Longrightarrow> ExceptionHandler K (SYSCALL_EXCEPTION K) s = case_Join K s"
    and "registers s 2 = SC_Exec K \<Longrightarrow> ExceptionHandler K (SYSCALL_EXCEPTION K) s = case_Exec K s"
  using assms
  by (auto simp add: ExceptionHandler_def ReadRegister_def case_labels_def)

lemma dispatch_nachos:
  "registers s 2 = 6 \<Longrightarrow> ExceptionHandler nachos 1 s = case_Read nachos s"
  "registers s 2 = 7 \<Longrightarrow> ExceptionHandler nachos 1 s = case_Write nachos s"
  "registers s 2 = 5 \<Longrightarrow> ExceptionHandler nachos 1 s = case_Open nachos s"
  "registers s 2 = 1 \<Longrightarrow> ExceptionHandler nachos 1 s = case_Exit nachos s"
  "registers s 2 = 3 \<Longrightarrow> ExceptionHandler nachos 1 s = case_Join nachos s"
  "registers s 2 = 2 \<Longrightarrow> ExceptionHandler nachos 1 s = case_Exec nachos s"
  using dispatch [OF nachos_labels, of s] by (simp_all add: nachos_fields)

lemma handler_cases:
  "(which = SYSCALL_EXCEPTION K \<and> registers s 2 = SC_Exit K \<and>
      ExceptionHandler K which s = case_Exit K s) \<or>
   ExceptionHandler K which s = Halted s \<or>
   (\<exists>ds. ExceptionHandler K which s = Aborted ds s) \<or>
   ExceptionHandler K which s = case_Create K s \<or>
   ExceptionHandler K which s = case_Read K s \<or>
   ExceptionHandler K which s = case_Write K s \<or>
   ExceptionHandler K which s = case_Open K s \<or>
   ExceptionHandler K which s = case_Close K s \<or>
   ExceptionHandler K which s = case_Join K s \<or>
   ExceptionHandler K which s = case_Exec K s"
  by (simp add: ExceptionHandler_def Let_def ReadRegister_def)

lemmas observers = returns_def register_after_def threads_after_def console_out_after_def
  console_in_after_def memory_after_def

subsection \<open>Registers\<close>

lemma IncreasePC_unfold:
  "IncreasePC K s = s\<lparr>registers := (registers s)
      (PREV_PC_REG K := registers s (PC_REG K),
       PC_REG K := ((registers s)(PREV_PC_REG K := registers s (PC_REG K))) (NEXT_PC_REG K),
       NEXT_PC_REG K :=
         ((registers s)(PREV_PC_REG K := registers s (PC_REG K))) (NEXT_PC_REG K) + 4)\<rparr>"
  by (simp add: IncreasePC_def Let_def ReadRegister_def WriteRegister_def)

lemma IncreasePC_fields [simp]:
  "mainMemory (IncreasePC K s) = mainMemory s"
  "mapped (IncreasePC K s) = mapped s"
  "stackRoom (IncreasePC K s) = stackRoom s"
  "threadCalls (IncreasePC K s) = threadCalls s"
  "fileSystem (IncreasePC K s) = fileSystem s"
  "consoleIn (IncreasePC K s) = consoleIn s"
  "consoleOut (IncreasePC K s) = consoleOut s"
  "threads (IncreasePC K s) = threads s"
  "nthreads (IncreasePC K s) = nthreads s"
  "currentThread (IncreasePC K s) = currentThread s"
  "pTable (IncreasePC K s) = pTable s"
  "readyList (IncreasePC K s) = readyList s"
  by (simp_all add: IncreasePC_unfold)

lemma IncreasePC_keeps:
  "r \<noteq> PC_REG K \<Longrightarrow> r \<noteq> NEXT_PC_REG K \<Longrightarrow> r \<noteq> PREV_PC_REG K \<Longrightarrow>
   registers (IncreasePC K s) r = registers s r"
  by (simp add: IncreasePC_unfold)

lemma WriteRegister_fields [simp]:
  "mainMemory (WriteRegister r v s) = mainMemory s"
  "mapped (WriteRegister r v s) = mapped s"
  "stackRoom (WriteRegister r v s) = stackRoom s"
  "threadCalls (WriteRegister r v s) = threadCalls s"
  "fileSystem (WriteRegister r v s) = fileSystem s"
  "consoleIn (WriteRegister r v s) = consoleIn s"
  "consoleOut (WriteRegister r v s) = consoleOut s"
  "threads (WriteRegister r v s) = threads s"
  "nthreads (WriteRegister r v s) = nthreads s"
  "currentThread (WriteRegister r v s) = currentThread s"
  "pTable (WriteRegister r v s) = pTable s"
  "readyList (WriteRegister r v s) = readyList s"
  "registers (WriteRegister r v s) = (registers s)(r := v)"
  by (simp_all add: WriteRegister_def)

lemma result_written_only_registers:
  "IncreasePC K (WriteRegister r v s) =
     s\<lparr>registers := registers (IncreasePC K (WriteRegister r v s))\<rparr>"
  by (rule kernel.equality) simp_all

lemma request_registers:
  "registers (trap a code a1 a2 a3 s) 2 = code"
  "registers (trap a code a1 a2 a3 s) 4 = a1"
  "registers (trap a code a1 a2 a3 s) 5 = a2"
  "registers (trap a code a1 a2 a3 s) 6 = a3"
  by (simp_all add: trap_def)

lemma console_requests:
  "registers read_two 2 = 6" "registers read_two 4 = 200" "registers read_two 5 = 2"
  "registers read_two 6 = 0"
  "registers write_abc 2 = 7" "registers write_abc 4 = 100" "registers write_abc 5 = 3"
  "registers write_abc 6 = 1"
  "registers read_other_handle 2 = 6" "registers read_other_handle 5 = 2"
  "registers read_other_handle 6 = 2"
  "registers write_other_handle 2 = 7" "registers write_other_handle 5 = 3"
  "registers write_other_handle 6 = 2"
  "registers read_negative 2 = 6" "registers read_negative 5 = - 1"
  "registers read_negative 6 = 0"
  "registers write_negative 2 = 7" "registers write_negative 5 = - 1"
  "registers write_negative 6 = 1"
  by (simp_all add: read_two_def write_abc_def read_other_handle_def write_other_handle_def
      read_negative_def write_negative_def request_registers)

lemma faulting_requests:
  "registers read_negative_other_handle 2 = 6" "registers read_negative_other_handle 5 = - 1"
  "registers read_negative_other_handle 6 = 2"
  "registers write_negative_other_handle 2 = 7" "registers write_negative_other_handle 5 = - 1"
  "registers write_negative_other_handle 6 = 2"
  "registers read_too_large 2 = 6" "registers read_too_large 5 = 2000"
  "registers read_too_large 6 = 2"
  "registers write_too_large 2 = 7" "registers write_too_large 5 = 2000"
  "registers write_too_large 6 = 1"
  "registers read_unmapped 2 = 6" "registers read_unmapped 4 = 65536"
  "registers read_unmapped 5 = 2" "registers read_unmapped 6 = 0"
  "registers write_unmapped 2 = 7" "registers write_unmapped 4 = 65536"
  "registers write_unmapped 5 = 3" "registers write_unmapped 6 = 1"
  by (simp_all add: read_negative_other_handle_def write_negative_other_handle_def
      read_too_large_def write_too_large_def read_unmapped_def write_unmapped_def
      request_registers)

lemma request_kernel:
  "stackRoom (trap a code a1 a2 a3 s) = stackRoom s"
  "mapped (trap a code a1 a2 a3 s) = mapped s"
  "mainMemory (trap a code a1 a2 a3 s) = mainMemory s"
  "consoleIn (trap a code a1 a2 a3 s) = consoleIn s"
  "consoleOut (trap a code a1 a2 a3 s) = consoleOut s"
  "stackRoom (poke b cs s) = stackRoom s"
  "mapped (poke b cs s) = mapped s"
  "consoleOut (poke b cs s) = consoleOut s"
  "stackRoom boot = 1024" "mapped boot = (\<lambda>a. a < 4096)" "consoleOut boot = []"
  "consoleIn boot = (\<lambda>k. CHR ''a'')"
  by (simp_all add: trap_def poke_def boot_def)

lemma stack_of_requests:
  "stackRoom read_two = 1024" "stackRoom write_abc = 1024"
  "stackRoom read_other_handle = 1024" "stackRoom write_other_handle = 1024"
  "stackRoom read_too_large = 1024" "stackRoom write_too_large = 1024"
  "stackRoom read_unmapped = 1024" "stackRoom write_unmapped = 1024"
  by (simp_all add: read_two_def write_abc_def read_other_handle_def write_other_handle_def
      read_too_large_def write_too_large_def read_unmapped_def write_unmapped_def
      request_kernel)

lemma parent_joins_request:
  "registers parent_joins 2 = 3" "registers parent_joins 4 = 1"
  by (simp_all add: parent_joins_def request_registers)

lemma exec_prog_request:
  "registers exec_prog 2 = 2" "registers exec_prog 4 = 100"
  by (simp_all add: exec_prog_def request_registers)

subsection \<open>Signed and unsigned readings of a register\<close>

lemma sint_cases:
  "sint (w::word32) = (if uint w < 2^31 then uint w else uint w - 2^32)"
proof -
  have a: "sint w = (uint w + 2^31) mod 2^32 - 2^31"
    using int_word_sint [of "uint w", where 'a=32] by simp
  have b: "0 \<le> uint w" "uint w < 2^32"
    using uint_lt2p [of w] by simp_all
  show ?thesis
  proof (cases "uint w < 2^31")
    case True
    then have "(uint w + 2^31) mod 2^32 = uint w + 2^31" using b by simp
    then show ?thesis using a True by simp
  next
    case False
    then have d: "2^31 \<le> uint w" by simp
    have "(uint w + 2^31) mod 2^32 = (uint w + 2^31 - 2^32) mod 2^32"
      by (simp only: minus_mod_self2)
    also have "\<dots> = uint w + 2^31 - 2^32"
      by (rule mod_pos_pos_trivial) (use b d in simp_all)
    finally show ?thesis using a False by simp
  qed
qed

lemma sint_nonneg: "0 \<le> sint (w::word32) \<Longrightarrow> sint w = int (unat w)"
  using uint_lt2p [of w] by (simp add: sint_cases uint_nat [symmetric] split: if_splits)

lemma sint_neg: "sint (w::word32) < 0 \<Longrightarrow> 2^31 \<le> unat w"
proof -
  assume "sint w < 0"
  then have "2^31 \<le> uint w" by (simp add: sint_cases split: if_splits)
  then have "(2::int)^31 \<le> int (unat w)" by (simp only: uint_nat)
  then show ?thesis
    using of_nat_le_iff [of "2^31" "unat w", where 'a = int] by simp
qed

lemma unat_pos_of_negative: "sint (w::word32) < 0 \<Longrightarrow> 0 < unat w"
  using sint_neg [of w] by simp

lemma unat_minus_one_32: "unat (- 1 :: word32) = 4294967295"
  by (simp add: unsigned_minus_1_eq_mask mask_eq_exp_minus_1)

subsection \<open>The loops\<close>

lemma length_ReadBufferFromUser:
  "ReadBufferFromUser ok m a n = Inr cs \<Longrightarrow> length cs = n"
  by (induction n arbitrary: a cs) (auto split: if_splits sum.splits)

lemma Write_loop_in_bounds:
  "i \<le> n \<Longrightarrow> int n \<le> cap \<Longrightarrow>
   Write_loop i n cap buffer s =
     Inr (n, s\<lparr>consoleOut := consoleOut s @ map ((!) buffer) [i..<n]\<rparr>)"
proof (induction i n cap buffer s rule: Write_loop.induct)
  case (1 i n cap buffer s)
  show ?case
  proof (cases "i < n")
    case True
    then have b: "int i < cap" using "1.prems" by simp
    have "Write_loop i n cap buffer s = Write_loop (Suc i) n cap buffer (PutChar (buffer ! i) s)"
      using True b by (subst Write_loop.simps) simp
    also have "\<dots> = Inr (n, (PutChar (buffer ! i) s)
        \<lparr>consoleOut := consoleOut (PutChar (buffer ! i) s) @ map ((!) buffer) [Suc i..<n]\<rparr>)"
      using True b "1.prems" by (intro "1.IH") simp_all
    also have "\<dots> = Inr (n, s\<lparr>consoleOut := consoleOut s @ map ((!) buffer) [i..<n]\<rparr>)"
      using True by (simp add: PutChar_def upt_conv_Cons)
    finally show ?thesis .
  next
    case False
    then have "i = n" using "1.prems" by simp
    then show ?thesis by (subst Write_loop.simps) simp
  qed
qed

lemma Write_loop_overrun:
  "0 < n \<Longrightarrow> cap \<le> 0 \<Longrightarrow> Write_loop 0 n cap buffer s = Inl BufferOverrun"
  by (subst Write_loop.simps) simp

lemma Read_loop_overrun:
  "0 < n \<Longrightarrow> cap \<le> 0 \<Longrightarrow> Read_loop 0 n cap buffer s = Inl BufferOverrun"
  by (subst Read_loop.simps) (simp add: GetChar_def)

lemma Read_loop_in_bounds:
  "i \<le> n \<Longrightarrow> int n \<le> cap \<Longrightarrow> n \<le> length buffer \<Longrightarrow>
   Read_loop i n cap buffer s =
     Inr (take i buffer @ map (\<lambda>k. consoleIn s (k - i)) [i..<n] @ drop n buffer, n,
          s\<lparr>consoleIn := (\<lambda>k. consoleIn s (k + (n - i)))\<rparr>)"
proof (induction i n cap buffer s rule: Read_loop.induct)
  case (1 i n cap buffer s)
  show ?case
  proof (cases "i < n")
    case True
    then have b: "int i < cap" using "1.prems" by simp
    define c where "c = consoleIn s 0"
    define s1 where "s1 = s\<lparr>consoleIn := (\<lambda>k. consoleIn s (Suc k))\<rparr>"
    have g: "GetChar s = (c, s1)" by (simp add: GetChar_def c_def s1_def)
    have "Read_loop i n cap buffer s = Read_loop (Suc i) n cap (buffer[i := c]) s1"
      using True b g by (subst Read_loop.simps) simp
    also have "\<dots> = Inr (take (Suc i) (buffer[i := c]) @
          map (\<lambda>k. consoleIn s1 (k - Suc i)) [Suc i..<n] @ drop n (buffer[i := c]), n,
          s1\<lparr>consoleIn := (\<lambda>k. consoleIn s1 (k + (n - Suc i)))\<rparr>)"
      using True b g "1.prems" by (intro "1.IH") simp_all
    also have "\<dots> =
        Inr (take i buffer @ map (\<lambda>k. consoleIn s (k - i)) [i..<n] @ drop n buffer, n,
          s\<lparr>consoleIn := (\<lambda>k. consoleIn s (k + (n - i)))\<rparr>)"
    proof -
      have il: "i < length buffer" using True "1.prems" by simp
      have t: "take (Suc i) (buffer[i := c]) = take i buffer @ [c]"
        using il by (simp add: take_Suc_conv_app_nth)
      have d: "drop n (buffer[i := c]) = drop n buffer"
        using True by simp
      have m: "map (\<lambda>k. consoleIn s1 (k - Suc i)) [Suc i..<n] =
          map (\<lambda>k. consoleIn s (k - i)) [Suc i..<n]"
        by (rule map_cong) (auto simp: s1_def Suc_diff_Suc)
      have u: "[i..<n] = i # [Suc i..<n]" using True by (simp add: upt_conv_Cons)
      have f: "(\<lambda>k. consoleIn s1 (k + (n - Suc i))) = (\<lambda>k. consoleIn s (k + (n - i)))"
        using True by (auto simp: s1_def fun_eq_iff Suc_diff_Suc)
      show ?thesis
        unfolding t d m f by (simp add: u c_def s1_def)
    qed
    finally show ?thesis .
  next
    case False
    then have "i = n" using "1.prems" by simp
    then show ?thesis by (subst Read_loop.simps) simp
  qed
qed

subsection \<open>The cases of the switch\<close>

lemma declare_buffer_negative:
  "sint sz < 0 \<Longrightarrow> declare_buffer sz s = Inl NegativeArraySize"
  by (simp add: declare_buffer_def)

lemma declare_buffer_too_large:
  "0 \<le> sint sz \<Longrightarrow> stackRoom s < unat sz \<Longrightarrow> declare_buffer sz s = Inl StackOverflow"
  by (simp add: declare_buffer_def sint_nonneg)

lemma declare_buffer_fits:
  "0 \<le> sint sz \<Longrightarrow> unat sz \<le> stackRoom s \<Longrightarrow>
   declare_buffer sz s = Inr (replicate (unat sz) (CHR 0x00))"
  by (simp add: declare_buffer_def sint_nonneg)

lemma declare_buffer_Inr:
  "declare_buffer sz s = Inr buffer \<Longrightarrow> 0 \<le> sint sz \<and> unat sz \<le> stackRoom s"
  by (auto simp add: declare_buffer_def sint_nonneg split: if_splits)

lemma case_Read_negative:
  "sint (registers s 5) < 0 \<Longrightarrow> case_Read K s = Undefined NegativeArraySize"
  by (simp add: case_Read_def Let_def ReadRegister_def declare_buffer_negative)

lemma case_Write_negative:
  "sint (registers s 5) < 0 \<Longrightarrow> case_Write K s = Undefined NegativeArraySize"
  by (simp add: case_Write_def Let_def ReadRegister_def declare_buffer_negative)

lemma case_Read_too_large:
  "0 \<le> sint (registers s 5) \<Longrightarrow> stackRoom s < unat (registers s 5) \<Longrightarrow>
   case_Read K s = Undefined StackOverflow"
  by (simp add: case_Read_def Let_def ReadRegister_def declare_buffer_too_large)

lemma case_Write_too_large:
  "0 \<le> sint (registers s 5) \<Longrightarrow> stackRoom s < unat (registers s 5) \<Longrightarrow>
   case_Write K s = Undefined StackOverflow"
  by (simp add: case_Write_def Let_def ReadRegister_def declare_buffer_too_large)

lemma case_Read_returns:
  "returns (case_Read K s) \<Longrightarrow> 0 \<le> sint (registers s 5) \<and> unat (registers s 5) \<le> stackRoom s"
  by (auto simp add: case_Read_def Let_def ReadRegister_def returns_def
      dest: declare_buffer_Inr split: sum.splits)

lemma case_Write_returns:
  "returns (case_Write K s) \<Longrightarrow> 0 \<le> sint (registers s 5) \<and> unat (registers s 5) \<le> stackRoom s"
  by (auto simp add: case_Write_def Let_def ReadRegister_def returns_def
      dest: declare_buffer_Inr split: sum.splits)

lemma case_Read_other_handle:
  "0 \<le> sint (registers s 5) \<Longrightarrow> unat (registers s 5) \<le> stackRoom s \<Longrightarrow>
   registers s 6 \<noteq> ConsoleInput K \<Longrightarrow>
   case_Read K s = Resumed (IncreasePC K (WriteRegister 2 0 s))"
  by (simp add: case_Read_def Let_def ReadRegister_def declare_buffer_fits)

lemma case_Write_other_handle:
  "0 \<le> sint (registers s 5) \<Longrightarrow> unat (registers s 5) \<le> stackRoom s \<Longrightarrow>
   registers s 6 \<noteq> ConsoleOutput K \<Longrightarrow>
   case_Write K s = Resumed (IncreasePC K (WriteRegister 2 0 s))"
  by (simp add: case_Write_def Let_def ReadRegister_def declare_buffer_fits)

lemma case_Read_console:
  assumes "registers s 6 = ConsoleInput K" and "0 \<le> sint (registers s 5)"
    and "unat (registers s 5) \<le> stackRoom s"
  shows "case_Read K s =
    (case WriteBufferToUser (mapped s) (map (consoleIn s) [0..<unat (registers s 5)])
            (registers s 4) (mainMemory s) of
       Inl f \<Rightarrow> Undefined f
     | Inr m \<Rightarrow>
         Resumed (IncreasePC K (WriteRegister 2 (registers s 5)
           (s\<lparr>consoleIn := (\<lambda>k. consoleIn s (k + unat (registers s 5))),
              mainMemory := m\<rparr>))))"
proof -
  define n where "n = unat (registers s 5)"
  have c: "sint (registers s 5) = int n"
    using assms(2) by (simp add: n_def sint_nonneg)
  have d: "declare_buffer (registers s 5) s = Inr (replicate n (CHR 0x00))"
    using assms(2,3) by (simp add: declare_buffer_fits n_def)
  have l: "Read_loop 0 n (int n) (replicate n (CHR 0x00)) s =
      Inr (map (consoleIn s) [0..<n], n, s\<lparr>consoleIn := (\<lambda>k. consoleIn s (k + n))\<rparr>)"
    by (subst Read_loop_in_bounds) simp_all
  have w: "word_of_nat n = registers s 5"
    by (simp add: n_def)
  show ?thesis
    using assms(1)
    by (simp add: case_Read_def Let_def ReadRegister_def d c n_def [symmetric] l w
        split: sum.splits)
qed

lemma case_Write_console:
  assumes "registers s 6 = ConsoleOutput K" and "0 \<le> sint (registers s 5)"
    and "unat (registers s 5) \<le> stackRoom s"
  shows "case_Write K s =
    (case ReadBufferFromUser (mapped s) (mainMemory s) (registers s 4)
            (unat (registers s 5)) of
       Inl f \<Rightarrow> Undefined f
     | Inr cs \<Rightarrow>
         Resumed (IncreasePC K (WriteRegister 2 (registers s 5)
           (s\<lparr>consoleOut := consoleOut s @ cs\<rparr>))))"
proof -
  define n where "n = unat (registers s 5)"
  have c: "sint (registers s 5) = int n"
    using assms(2) by (simp add: n_def sint_nonneg)
  have d: "declare_buffer (registers s 5) s = Inr (replicate n (CHR 0x00))"
    using assms(2,3) by (simp add: declare_buffer_fits n_def)
  have l: "Write_loop 0 n (int n) cs s = Inr (n, s\<lparr>consoleOut := consoleOut s @ cs\<rparr>)"
    if "ReadBufferFromUser (mapped s) (mainMemory s) (registers s 4) n = Inr cs" for cs
  proof -
    have "length cs = n" using that by (rule length_ReadBufferFromUser)
    then have "map ((!) cs) [0..<n] = cs" using map_nth [of cs] by simp
    then show ?thesis by (subst Write_loop_in_bounds) simp_all
  qed
  have w: "word_of_nat n = registers s 5"
    by (simp add: n_def)
  show ?thesis
    using assms(1) l
    by (simp add: case_Write_def Let_def ReadRegister_def d c n_def [symmetric] w
        split: sum.splits)
qed

lemma case_Open_missing:
  "Open s (ReadStringFromUser (mainMemory s) (registers s 4) 256) = None \<Longrightarrow>
   case_Open K s = Resumed (IncreasePC K s)"
  by (simp add: case_Open_def Let_def ReadRegister_def)

lemma new_Thread_sid:
  "new_Thread nm s = (t, s1) \<Longrightarrow>
   t = nthreads s \<and> sid (threads s1 t) = word_of_nat (first_free (pTable s)) \<and>
   registers s1 = registers s"
  by (auto simp add: new_Thread_def Let_def Register_def called_def split: prod.splits)

lemma case_Exec_found:
  assumes "Open s (ReadStringFromUser (mainMemory s) (registers s 4) 256) = Some f"
  shows "\<exists>s3. case_Exec K s =
      Resumed (IncreasePC K (WriteRegister 2 (word_of_nat (first_free (pTable s))) s3)) \<and>
      registers s3 = registers s"
proof -
  obtain t s1 where
    n: "new_Thread (ReadStringFromUser (mainMemory s) (registers s 4) 256) s = (t, s1)"
    by (cases "new_Thread (ReadStringFromUser (mainMemory s) (registers s 4) 256) s")
  define s3 where
    "s3 = Fork t (registers s 5)
            (update_thread t (\<lambda>th. th\<lparr>space := Some (AddressSpace f)\<rparr>) s1)"
  have i: "sid (threads s1 t) = word_of_nat (first_free (pTable s))" "registers s1 = registers s"
    using new_Thread_sid [OF n] by auto
  have "case_Exec K s =
      Resumed (IncreasePC K (WriteRegister 2 (word_of_nat (first_free (pTable s))) s3))"
    using assms i
    by (simp add: case_Exec_def Let_def ReadRegister_def n update_thread_def s3_def)
  moreover have "registers s3 = registers s"
    using i by (simp add: s3_def Fork_def update_thread_def called_def)
  ultimately show ?thesis by blast
qed

subsection \<open>Who records an exit status\<close>

lemma status_kept_Create:
  "kernel_after (case_Create K s) = Some s' \<Longrightarrow> threads s' = threads s"
  by (auto simp add: case_Create_def Let_def kernel_after_def Create_def)

lemma case_Read_defined:
  "kernel_after (case_Read K s) = Some s' \<Longrightarrow>
   0 \<le> sint (registers s 5) \<and> unat (registers s 5) \<le> stackRoom s"
  by (auto simp add: case_Read_def Let_def ReadRegister_def kernel_after_def
      dest: declare_buffer_Inr split: sum.splits)

lemma case_Write_defined:
  "kernel_after (case_Write K s) = Some s' \<Longrightarrow>
   0 \<le> sint (registers s 5) \<and> unat (registers s 5) \<le> stackRoom s"
  by (auto simp add: case_Write_def Let_def ReadRegister_def kernel_after_def
      dest: declare_buffer_Inr split: sum.splits)

lemma status_kept_Read:
  assumes "kernel_after (case_Read K s) = Some s'"
  shows "threads s' = threads s"
proof -
  have f: "0 \<le> sint (registers s 5)" "unat (registers s 5) \<le> stackRoom s"
    using case_Read_defined [OF assms] by simp_all
  show ?thesis
  proof (cases "registers s 6 = ConsoleInput K")
    case False
    then show ?thesis
      using assms by (auto simp add: case_Read_other_handle [OF f] kernel_after_def)
  next
    case True
    show ?thesis
      using assms
      by (auto simp add: case_Read_console [OF True f] kernel_after_def split: sum.splits)
  qed
qed

lemma status_kept_Write:
  assumes "kernel_after (case_Write K s) = Some s'"
  shows "threads s' = threads s"
proof -
  have f: "0 \<le> sint (registers s 5)" "unat (registers s 5) \<le> stackRoom s"
    using case_Write_defined [OF assms] by simp_all
  show ?thesis
  proof (cases "registers s 6 = ConsoleOutput K")
    case False
    then show ?thesis
      using assms by (auto simp add: case_Write_other_handle [OF f] kernel_after_def)
  next
    case True
    show ?thesis
      using assms
      by (auto simp add: case_Write_console [OF True f] kernel_after_def split: sum.splits)
  qed
qed

lemma status_kept_Open:
  "kernel_after (case_Open K s) = Some s' \<Longrightarrow>
   exitStatus (threads s' a) = exitStatus (threads s a)"
  by (auto simp add: case_Open_def Let_def kernel_after_def AddFile_def update_thread_def
      called_def split: option.splits prod.splits)

lemma status_kept_Close:
  "kernel_after (case_Close K s) = Some s' \<Longrightarrow>
   exitStatus (threads s' a) = exitStatus (threads s a)"
  by (auto simp add: case_Close_def Let_def kernel_after_def RemoveFile_def update_thread_def
      called_def)

lemma status_kept_Join:
  "kernel_after (case_Join K s) = Some s' \<Longrightarrow> threads s' = threads s"
  by (auto simp add: case_Join_def Let_def kernel_after_def
      split: option.splits if_splits)

lemma status_kept_Exec:
  "kernel_after (case_Exec K s) = Some s' \<Longrightarrow> exitStatus (threads s' a) = Some st \<Longrightarrow>
   exitStatus (threads s a) = Some st"
  by (auto simp add: case_Exec_def Let_def kernel_after_def new_Thread_def Register_def
      update_thread_def Fork_def called_def split: option.splits prod.splits if_splits)

lemma status_set_Exit:
  "kernel_after (case_Exit K s) = Some s' \<Longrightarrow> exitStatus (threads s' a) = Some st \<Longrightarrow>
   exitStatus (threads s a) \<noteq> Some st \<Longrightarrow> a = currentThread s \<and> st = registers s 4"
  by (auto simp add: case_Exit_def Let_def kernel_after_def after_def call_Finish_def
      Finish_def RemoveAllFiles_def update_thread_def called_def ReadRegister_def
      split: if_splits)

lemma exit_status_recorded_only_by_Exit:
  assumes "kernel_after (ExceptionHandler K which s) = Some s'"
    and "exitStatus (threads s' a) = Some st"
    and "exitStatus (threads s a) \<noteq> Some st"
  shows "which = SYSCALL_EXCEPTION K \<and> registers s 2 = SC_Exit K \<and>
         a = currentThread s \<and> st = registers s 4"
proof -
  have n: "exitStatus (threads s' a) \<noteq> exitStatus (threads s a)"
    using assms(2,3) by simp
  then have m: "threads s' \<noteq> threads s" by auto
  consider
      (c_exit) "which = SYSCALL_EXCEPTION K" "registers s 2 = SC_Exit K"
        "ExceptionHandler K which s = case_Exit K s"
    | (c_same) "ExceptionHandler K which s = Halted s \<or>
        (\<exists>ds. ExceptionHandler K which s = Aborted ds s)"
    | (c_create) "ExceptionHandler K which s = case_Create K s"
    | (c_read) "ExceptionHandler K which s = case_Read K s"
    | (c_write) "ExceptionHandler K which s = case_Write K s"
    | (c_open) "ExceptionHandler K which s = case_Open K s"
    | (c_close) "ExceptionHandler K which s = case_Close K s"
    | (c_join) "ExceptionHandler K which s = case_Join K s"
    | (c_exec) "ExceptionHandler K which s = case_Exec K s"
    using handler_cases [of which K s] by blast
  then show ?thesis
  proof cases
    case c_exit
    then show ?thesis using assms status_set_Exit [of K s s' a st] by simp
  next
    case c_same
    then have "s' = s" using assms(1) by (auto simp add: kernel_after_def)
    then show ?thesis using n by simp
  next
    case c_create
    then show ?thesis using assms(1) m status_kept_Create [of K s s'] by simp
  next
    case c_read
    then show ?thesis using assms(1) m status_kept_Read [of K s s'] by simp
  next
    case c_write
    then show ?thesis using assms(1) m status_kept_Write [of K s s'] by simp
  next
    case c_open
    then show ?thesis using assms(1) n status_kept_Open [of K s s' a] by simp
  next
    case c_close
    then show ?thesis using assms(1) n status_kept_Close [of K s s' a] by simp
  next
    case c_join
    then show ?thesis using assms(1) m status_kept_Join [of K s s'] by simp
  next
    case c_exec
    then show ?thesis using assms status_kept_Exec [of K s s' a st] by simp
  qed
qed

subsection \<open>The concrete states\<close>

lemma name_missing: "ReadStringFromUser (mainMemory open_missing) 100 256 = ''missing.txt''"
  by (simp add: open_missing_def trap_def poke_def boot_def ReadStringFromUser.simps)

lemma mapped_boot:
  "mapped boot 100" "mapped boot 101" "mapped boot 102" "mapped boot 200" "mapped boot 201"
  "\<not> mapped boot 65536"
  "(100 :: word32) \<noteq> - 1" "(101 :: word32) \<noteq> - 1" "(200 :: word32) \<noteq> - 1"
  by (simp_all add: boot_def)

lemma abc_in_memory:
  "ReadBufferFromUser (mapped write_abc) (mainMemory write_abc) 100 3 = Inr ''abc''"
proof -
  have m: "mapped write_abc = mapped boot"
    by (simp add: write_abc_def request_kernel)
  have c: "mainMemory write_abc 100 = CHR ''a''" "mainMemory write_abc 101 = CHR ''b''"
    "mainMemory write_abc 102 = CHR ''c''"
    by (simp_all add: write_abc_def trap_def poke_def)
  show ?thesis
    by (simp add: m numeral_3_eq_3 mapped_boot c)
qed

lemma two_read_into_memory:
  "\<exists>m. WriteBufferToUser (mapped read_two) (map (consoleIn read_two) [0..<2]) 200
         (mainMemory read_two) = Inr m"
proof -
  have m: "mapped read_two = mapped boot"
    by (simp add: read_two_def request_kernel)
  show ?thesis
    by (simp add: m numeral_2_eq_2 mapped_boot)
qed

lemma unmapped_buffers:
  "ReadBufferFromUser (mapped write_unmapped) (mainMemory write_unmapped) 65536 3 =
     Inl AddressingFault"
  "WriteBufferToUser (mapped read_unmapped) (map (consoleIn read_unmapped) [0..<2]) 65536
     (mainMemory read_unmapped) = Inl AddressingFault"
proof -
  have m: "mapped write_unmapped = mapped boot" "mapped read_unmapped = mapped boot"
    by (simp_all add: write_unmapped_def read_unmapped_def request_kernel)
  show "ReadBufferFromUser (mapped write_unmapped) (mainMemory write_unmapped) 65536 3 =
     Inl AddressingFault"
    by (simp add: m numeral_3_eq_3 mapped_boot)
  show "WriteBufferToUser (mapped read_unmapped) (map (consoleIn read_unmapped) [0..<2]) 65536
     (mainMemory read_unmapped) = Inl AddressingFault"
    by (simp add: m numeral_2_eq_2 mapped_boot)
qed

lemma child_after_exit:
  "Get parent_joins 1 = Some (Suc 0)"
  "exitStatus (threads parent_joins (Suc 0)) = Some 42"
  by (simp_all add: Get_def parent_joins_def trap_def Finish_def RemoveAllFiles_def
      update_thread_def called_def child_exits_def two_processes_def)

section \<open>The claims\<close>

subsection \<open>The program counter\<close>

text \<open>
  C7. After \<^verbatim>\<open>IncreasePC\<close> the previous-PC register holds the old PC, the PC register
  holds the old next-PC, the next-PC register holds the old next-PC plus 4 (the machine's
  32-bit addition), and every other register keeps its value. The three registers are
  three different registers of the machine.
\<close>

theorem IncreasePC_registers:
  assumes "distinct (pc_registers K)"
  shows "registers (IncreasePC K s) (PREV_PC_REG K) = registers s (PC_REG K) \<and>
         registers (IncreasePC K s) (PC_REG K) = registers s (NEXT_PC_REG K) \<and>
         registers (IncreasePC K s) (NEXT_PC_REG K) = registers s (NEXT_PC_REG K) + 4 \<and>
         (\<forall>r. r \<notin> set (pc_registers K) \<longrightarrow> registers (IncreasePC K s) r = registers s r)"
  using assms
  by (simp add: IncreasePC_def Let_def ReadRegister_def WriteRegister_def pc_registers_def)

theorem IncreasePC_registers_witness:
  "distinct (pc_registers nachos) \<and>
   registers (IncreasePC nachos boot) 36 = 64 \<and>
   registers (IncreasePC nachos boot) 34 = 68 \<and>
   registers (IncreasePC nachos boot) 35 = 72 \<and>
   registers (IncreasePC nachos boot) 2 = registers boot 2"
proof -
  have d: "distinct (pc_registers nachos)"
    by (simp add: pc_registers_def nachos_def)
  show ?thesis
    using d IncreasePC_registers [OF d, of boot]
    by (simp add: pc_registers_def nachos_def boot_def)
qed

subsection \<open>Traps the handler does not recognise\<close>

text \<open>
  C4. A trap that is not a system call, and a system call whose code is none of the nine
  labels of the switch, print their diagnostic and fail the assertion: the kernel aborts
  in the state the trap found, with no register written and the program counter where it
  was.
\<close>

theorem unrecognized_trap_aborts:
  "(which \<noteq> SYSCALL_EXCEPTION K \<longrightarrow>
      ExceptionHandler K which s =
        Aborted [Unexpected_user_mode_exception which (registers s 2),
                 Number (SYSCALL_EXCEPTION K)] s) \<and>
   (which = SYSCALL_EXCEPTION K \<and> registers s 2 \<notin> set (case_labels K) \<longrightarrow>
      ExceptionHandler K which s = Aborted [Unkown_syscall (registers s 2)] s)"
  by (simp add: ExceptionHandler_def ReadRegister_def case_labels_def)

theorem unrecognized_trap_aborts_witness:
  "(2::int) \<noteq> SYSCALL_EXCEPTION nachos \<and>
   ExceptionHandler nachos 2 boot =
     Aborted [Unexpected_user_mode_exception 2 0, Number 1] boot \<and>
   registers (trap 0 9999 0 0 0 boot) 2 \<notin> set (case_labels nachos) \<and>
   ExceptionHandler nachos 1 (trap 0 9999 0 0 0 boot) =
     Aborted [Unkown_syscall 9999] (trap 0 9999 0 0 0 boot)"
proof -
  have a: "(2::int) \<noteq> SYSCALL_EXCEPTION nachos"
    by (simp add: nachos_def)
  have b: "(1::int) = SYSCALL_EXCEPTION nachos \<and>
      registers (trap 0 9999 0 0 0 boot) 2 \<notin> set (case_labels nachos)"
    by (simp add: nachos_def case_labels_def trap_def)
  have c: "registers boot 2 = 0" "registers (trap 0 9999 0 0 0 boot) 2 = 9999"
    "SYSCALL_EXCEPTION nachos = 1"
    by (simp_all add: boot_def trap_def nachos_def)
  show ?thesis
    using a b unrecognized_trap_aborts [of 2 nachos boot]
      unrecognized_trap_aborts [of 1 nachos "trap 0 9999 0 0 0 boot"]
    by (simp add: c)
qed

subsection \<open>Files and programs that do not exist\<close>

text \<open>
  C1. The handler run on \<^verbatim>\<open>Open("missing.txt")\<close> in a file system without that file:
  the caller is resumed, no descriptor is bound, and the result register still holds the
  request code of Open, not the handle \<open>-1\<close> the branch computed. (For any kernel
  state, \<open>case_Open_missing\<close> shows that the branch does nothing but advance the
  program counter.)
\<close>

theorem Open_missing_file_result_not_written:
  "ReadStringFromUser (mainMemory open_missing) (registers open_missing 4) 256 = ''missing.txt'' \<and>
   Open open_missing ''missing.txt'' = None \<and>
   register_after 2 (ExceptionHandler nachos 1 open_missing) = Some (SC_Open nachos) \<and>
   SC_Open nachos \<noteq> - 1 \<and>
   threads_after (ExceptionHandler nachos 1 open_missing) = Some (threads open_missing)"
proof -
  have r: "registers open_missing 2 = 5" "registers open_missing 4 = 100"
    by (simp_all add: open_missing_def request_registers)
  have o: "Open open_missing ''missing.txt'' = None"
    by (simp add: Open_def open_missing_def trap_def poke_def boot_def)
  have h: "ExceptionHandler nachos 1 open_missing = Resumed (IncreasePC nachos open_missing)"
    by (simp add: dispatch_nachos r case_Open_missing name_missing o)
  show ?thesis
    by (simp add: h r name_missing o observers IncreasePC_keeps nachos_fields)
qed



subsection \<open>Exit and Join\<close>

text \<open>
  C8. On an Exit trap the handler first calls \<^verbatim>\<open>RemoveAllFiles\<close> on the calling thread
  and then \<^verbatim>\<open>Finish\<close> with the status of the first argument register: these are the two
  calls the trap adds to the history of the thread, in this order. The call ends with the
  thread terminated, every handle free and the status recorded, and it does not return
  to the trap site: the registers, the result register and the program counter among
  them, are those the trap found.
\<close>

theorem Exit_releases_then_terminates:
  assumes "distinct (case_labels K)" and "registers s 2 = SC_Exit K"
  shows "\<exists>fin. ExceptionHandler K (SYSCALL_EXCEPTION K) s = Terminated fin \<and>
           threadCalls fin =
             threadCalls s @ [(currentThread s, Called_RemoveAllFiles),
                              (currentThread s, Called_Finish (registers s 4))] \<and>
           list_all (\<lambda>f. f = None) (fileTable (threads fin (currentThread s))) \<and>
           exitStatus (threads fin (currentThread s)) = Some (registers s 4) \<and>
           registers fin = registers s \<and>
           \<not> returns (ExceptionHandler K (SYSCALL_EXCEPTION K) s)"
proof -
  have h: "ExceptionHandler K (SYSCALL_EXCEPTION K) s =
      Terminated (Finish (registers s 4) (RemoveAllFiles s))"
    using assms(2)
    by (simp add: dispatch(4) [OF assms(1)] case_Exit_def Let_def ReadRegister_def
        call_Finish_def after_def)
  show ?thesis
    unfolding h
    by (rule exI [where x = "Finish (registers s 4) (RemoveAllFiles s)"])
      (simp add: RemoveAllFiles_def Finish_def update_thread_def called_def list_all_length
        returns_def)
qed

theorem Exit_releases_then_terminates_witness:
  "distinct (case_labels nachos) \<and> registers child_exits 2 = SC_Exit nachos \<and>
   fileTable (threads child_exits 1) = [None, None, Some (OpenFile ''data''), None] \<and>
   threadCalls child_exits = [] \<and>
   (\<exists>fin. ExceptionHandler nachos 1 child_exits = Terminated fin \<and>
      threadCalls fin = [(1, Called_RemoveAllFiles), (1, Called_Finish 42)] \<and>
      fileTable (threads fin 1) = [None, None, None, None] \<and>
      exitStatus (threads fin 1) = Some 42 \<and>
      registers fin = registers child_exits) \<and>
   \<not> returns (ExceptionHandler nachos 1 child_exits)"
proof -
  have a: "registers child_exits 2 = SC_Exit nachos"
    by (simp add: child_exits_def trap_def nachos_def)
  have c: "SYSCALL_EXCEPTION nachos = 1" "registers child_exits 4 = 42"
    "currentThread child_exits = Suc 0" "threadCalls child_exits = []"
    by (simp_all add: nachos_def child_exits_def trap_def two_processes_def boot_def)
  have f: "fileTable (threads child_exits (Suc 0)) = [None, None, Some (OpenFile ''data''), None]"
    by (simp add: child_exits_def trap_def two_processes_def child_def)
  from Exit_releases_then_terminates [OF nachos_labels a] obtain fin where
    t: "ExceptionHandler nachos 1 child_exits = Terminated fin"
    and h: "threadCalls fin = [(Suc 0, Called_RemoveAllFiles), (Suc 0, Called_Finish 42)]"
    and l: "list_all (\<lambda>f. f = None) (fileTable (threads fin (Suc 0)))"
    and x: "exitStatus (threads fin (Suc 0)) = Some 42"
    and r: "registers fin = registers child_exits"
    and n: "\<not> returns (ExceptionHandler nachos 1 child_exits)"
    by (auto simp add: c)
  have "fin = Finish 42 (RemoveAllFiles child_exits)"
    using t
    by (simp add: dispatch_nachos case_Exit_def Let_def ReadRegister_def call_Finish_def
        after_def child_exits_def request_registers)
  then have g: "fileTable (threads fin (Suc 0)) = [None, None, None, None]"
    by (simp add: RemoveAllFiles_def Finish_def update_thread_def called_def c f)
  have "\<exists>fin. ExceptionHandler nachos 1 child_exits = Terminated fin \<and>
      threadCalls fin = [(1, Called_RemoveAllFiles), (1, Called_Finish 42)] \<and>
      fileTable (threads fin 1) = [None, None, None, None] \<and>
      exitStatus (threads fin 1) = Some 42 \<and>
      registers fin = registers child_exits"
    using t h g x r by simp
  then show ?thesis
    using nachos_labels a f c(4) n by simp
qed

text \<open>
  C9. A Join request whose identifier the process table does not know: the handler makes
  no test of the pointer the lookup returns and calls \<^verbatim>\<open>Join\<close> through the null pointer.
  Nothing is reported to the caller.
\<close>

theorem Join_unknown_pid_unchecked:
  assumes "distinct (case_labels K)" and "registers s 2 = SC_Join K"
    and "Get s (registers s 4) = None"
  shows "ExceptionHandler K (SYSCALL_EXCEPTION K) s = Undefined NullDereference \<and>
         \<not> returns (ExceptionHandler K (SYSCALL_EXCEPTION K) s)"
  using assms(2,3)
  by (simp add: dispatch(5) [OF assms(1)] case_Join_def Let_def ReadRegister_def returns_def)

theorem Join_unknown_pid_unchecked_witness:
  "distinct (case_labels nachos) \<and> registers join_unknown 2 = SC_Join nachos \<and>
   Get join_unknown (registers join_unknown 4) = None \<and>
   ExceptionHandler nachos 1 join_unknown = Undefined NullDereference \<and>
   \<not> returns (ExceptionHandler nachos 1 join_unknown)"
proof -
  have a: "registers join_unknown 2 = SC_Join nachos"
    by (simp add: join_unknown_def trap_def nachos_def)
  have b: "Get join_unknown (registers join_unknown 4) = None"
    by (simp add: Get_def join_unknown_def trap_def boot_def)
  have c: "SYSCALL_EXCEPTION nachos = 1" by (simp add: nachos_def)
  show ?thesis
    using nachos_labels a b Join_unknown_pid_unchecked [OF nachos_labels a b]
    by (simp add: c returns_def)
qed

text \<open>
  C2, as amended. A Join request on a registered process: while the thread of that
  process has no exit status recorded the caller stays suspended, and once a status is
  recorded the caller is resumed with 0 in the result register, whatever the status is.
  A status is recorded in a thread by no call of the handler but an Exit trap of that
  thread, and it is the argument of that Exit.
\<close>

theorem Join_waits_and_returns_zero:
  assumes "machine_ok K" and "registers s 2 = SC_Join K"
    and "Get s (registers s 4) = Some t"
  shows "(exitStatus (threads s t) = None \<longrightarrow>
            ExceptionHandler K (SYSCALL_EXCEPTION K) s = Blocked s) \<and>
         (\<forall>status. exitStatus (threads s t) = Some status \<longrightarrow>
            register_after 2 (ExceptionHandler K (SYSCALL_EXCEPTION K) s) = Some 0) \<and>
         (\<forall>which s0 s1 status.
            kernel_after (ExceptionHandler K which s0) = Some s1 \<and>
            exitStatus (threads s1 t) = Some status \<and>
            exitStatus (threads s0 t) \<noteq> Some status \<longrightarrow>
            which = SYSCALL_EXCEPTION K \<and> registers s0 2 = SC_Exit K \<and>
            currentThread s0 = t \<and> registers s0 4 = status)"
proof -
  have d: "distinct (case_labels K)"
    and p: "2 \<noteq> PC_REG K" "2 \<noteq> NEXT_PC_REG K" "2 \<noteq> PREV_PC_REG K"
    using assms(1) by (auto simp: machine_ok_def pc_registers_def)
  have "(exitStatus (threads s t) = None \<longrightarrow>
            ExceptionHandler K (SYSCALL_EXCEPTION K) s = Blocked s) \<and>
         (\<forall>status. exitStatus (threads s t) = Some status \<longrightarrow>
            register_after 2 (ExceptionHandler K (SYSCALL_EXCEPTION K) s) = Some 0)"
    using assms(2,3) p
    by (simp add: dispatch(5) [OF d] case_Join_def Let_def ReadRegister_def finished_def
        register_after_def IncreasePC_keeps)
  moreover have "which = SYSCALL_EXCEPTION K \<and> registers s0 2 = SC_Exit K \<and>
      currentThread s0 = t \<and> registers s0 4 = status"
    if "kernel_after (ExceptionHandler K which s0) = Some s1 \<and>
        exitStatus (threads s1 t) = Some status \<and>
        exitStatus (threads s0 t) \<noteq> Some status" for which s0 s1 status
    using that exit_status_recorded_only_by_Exit [of K which s0 s1 t status] by auto
  ultimately show ?thesis by blast
qed

theorem Join_waits_and_returns_zero_witness:
  "machine_ok nachos \<and> registers parent_joins_early 2 = SC_Join nachos \<and>
   Get parent_joins_early (registers parent_joins_early 4) = Some 1 \<and>
   exitStatus (threads parent_joins_early 1) = None \<and>
   ExceptionHandler nachos 1 parent_joins_early = Blocked parent_joins_early \<and>
   registers parent_joins 2 = SC_Join nachos \<and>
   Get parent_joins (registers parent_joins 4) = Some 1 \<and>
   exitStatus (threads parent_joins 1) = Some 42 \<and>
   register_after 2 (ExceptionHandler nachos 1 parent_joins) = Some 0 \<and>
   kernel_after (ExceptionHandler nachos 1 child_exits) =
     Some (Finish 42 (RemoveAllFiles child_exits)) \<and>
   exitStatus (threads (Finish 42 (RemoveAllFiles child_exits)) 1) = Some 42 \<and>
   exitStatus (threads child_exits 1) \<noteq> Some 42 \<and>
   registers child_exits 2 = SC_Exit nachos \<and>
   currentThread child_exits = 1 \<and>
   registers child_exits 4 = 42"
proof -
  have c: "SYSCALL_EXCEPTION nachos = 1" by (simp add: nachos_def)
  have e: "kernel_after (ExceptionHandler nachos 1 child_exits) =
      Some (Finish 42 (RemoveAllFiles child_exits))"
    by (simp add: dispatch_nachos case_Exit_def Let_def ReadRegister_def child_exits_def
        request_registers kernel_after_def call_Finish_def after_def)
  have x0: "exitStatus (threads (Finish 42 (RemoveAllFiles child_exits)) (Suc 0)) = Some 42"
    "exitStatus (threads child_exits (Suc 0)) \<noteq> Some 42"
    by (simp_all add: Finish_def RemoveAllFiles_def update_thread_def called_def
        child_exits_def trap_def two_processes_def child_def)
  have a1: "registers parent_joins_early 2 = SC_Join nachos"
    by (simp add: parent_joins_early_def trap_def nachos_def)
  have b1: "Get parent_joins_early (registers parent_joins_early 4) = Some (Suc 0)"
    by (simp add: Get_def parent_joins_early_def trap_def two_processes_def)
  have x1: "exitStatus (threads parent_joins_early (Suc 0)) = None"
    by (simp add: parent_joins_early_def trap_def two_processes_def child_def)
  have a2: "registers parent_joins 2 = SC_Join nachos"
    by (simp add: parent_joins_request nachos_fields)
  have b2: "Get parent_joins (registers parent_joins 4) = Some (Suc 0)"
    by (simp add: parent_joins_request child_after_exit)
  note x2 = child_after_exit(2)
  have t: "1 = SYSCALL_EXCEPTION nachos \<and> registers child_exits 2 = SC_Exit nachos \<and>
      currentThread child_exits = Suc 0 \<and> registers child_exits 4 = 42"
    using Join_waits_and_returns_zero [OF machine_ok_nachos a2 b2] e x0 by blast
  show ?thesis
    using machine_ok_nachos a1 b1 x1 a2 b2 x2 e x0 t
      Join_waits_and_returns_zero [OF machine_ok_nachos a1 b1]
      Join_waits_and_returns_zero [OF machine_ok_nachos a2 b2]
    by (simp add: c)
qed

text \<open>
  C2 as stated fails: the child, process 1, calls \<^verbatim>\<open>Exit(42)\<close>; the parent then calls
  \<^verbatim>\<open>Join(1)\<close> and is resumed with 0 in the result register, not 42.
\<close>

theorem Join_status_counterexample:
  "ExceptionHandler nachos 1 child_exits = Terminated (Finish 42 (RemoveAllFiles child_exits)) \<and>
   Get parent_joins (registers parent_joins 4) = Some 1 \<and>
   exitStatus (threads parent_joins 1) = Some 42 \<and>
   register_after 2 (ExceptionHandler nachos 1 parent_joins) = Some 0 \<and>
   register_after 2 (ExceptionHandler nachos 1 parent_joins) \<noteq> exitStatus (threads parent_joins 1)"
proof -
  have e: "ExceptionHandler nachos 1 child_exits =
      Terminated (Finish 42 (RemoveAllFiles child_exits))"
    by (simp add: dispatch_nachos case_Exit_def Let_def ReadRegister_def child_exits_def
        request_registers call_Finish_def after_def)
  have j: "ExceptionHandler nachos 1 parent_joins =
      Resumed (IncreasePC nachos (WriteRegister 2 0 parent_joins))"
    by (simp add: dispatch_nachos case_Join_def Let_def ReadRegister_def parent_joins_request
        child_after_exit finished_def)
  have v: "register_after 2 (ExceptionHandler nachos 1 parent_joins) = Some 0"
    by (simp add: j register_after_def IncreasePC_keeps nachos_fields)
  show ?thesis by (simp add: e parent_joins_request child_after_exit v)
qed

subsection \<open>The result register\<close>

text \<open>
  C3, as amended. When a Read, Write, Join or Exec request returns to the caller, its
  result word is in register 2, the register that carried the request code, and register
  4, the first argument register, holds what it held at the trap. The result word is the
  size for a console handle and 0 for another handle (Read, Write), 0 (Join), the
  identifier of the new process or \<open>-1\<close> (Exec).
\<close>

theorem result_register_is_r2:
  assumes "machine_ok K" and "returns (ExceptionHandler K (SYSCALL_EXCEPTION K) s)"
  shows
    "(registers s 2 = SC_Read K \<longrightarrow>
        register_after 2 (ExceptionHandler K (SYSCALL_EXCEPTION K) s) =
          Some (if registers s 6 = ConsoleInput K then registers s 5 else 0) \<and>
        register_after 4 (ExceptionHandler K (SYSCALL_EXCEPTION K) s) = Some (registers s 4)) \<and>
     (registers s 2 = SC_Write K \<longrightarrow>
        register_after 2 (ExceptionHandler K (SYSCALL_EXCEPTION K) s) =
          Some (if registers s 6 = ConsoleOutput K then registers s 5 else 0) \<and>
        register_after 4 (ExceptionHandler K (SYSCALL_EXCEPTION K) s) = Some (registers s 4)) \<and>
     (registers s 2 = SC_Join K \<longrightarrow>
        register_after 2 (ExceptionHandler K (SYSCALL_EXCEPTION K) s) = Some 0 \<and>
        register_after 4 (ExceptionHandler K (SYSCALL_EXCEPTION K) s) = Some (registers s 4)) \<and>
     (registers s 2 = SC_Exec K \<longrightarrow>
        register_after 2 (ExceptionHandler K (SYSCALL_EXCEPTION K) s) =
          Some (case Open s (ReadStringFromUser (mainMemory s) (registers s 4) 256) of
                  None \<Rightarrow> - 1
                | Some f \<Rightarrow> word_of_nat (first_free (pTable s))) \<and>
        register_after 4 (ExceptionHandler K (SYSCALL_EXCEPTION K) s) = Some (registers s 4))"
proof -
  have d: "distinct (case_labels K)"
    and p: "2 \<noteq> PC_REG K" "2 \<noteq> NEXT_PC_REG K" "2 \<noteq> PREV_PC_REG K"
      "4 \<noteq> PC_REG K" "4 \<noteq> NEXT_PC_REG K" "4 \<noteq> PREV_PC_REG K"
    using assms(1) by (auto simp: machine_ok_def pc_registers_def)
  note k = IncreasePC_keeps [OF p(1,2,3)] IncreasePC_keeps [OF p(4,5,6)]
  have rd: ?thesis if c: "registers s 2 = SC_Read K"
  proof -
    have h: "ExceptionHandler K (SYSCALL_EXCEPTION K) s = case_Read K s"
      using c by (rule dispatch(1) [OF d])
    have o: "SC_Read K \<noteq> SC_Write K" "SC_Read K \<noteq> SC_Join K" "SC_Read K \<noteq> SC_Exec K"
      using d by (auto simp: case_labels_def)
    have f: "0 \<le> sint (registers s 5)" "unat (registers s 5) \<le> stackRoom s"
      using assms(2) case_Read_returns [of K s] by (simp_all add: h)
    show ?thesis
    proof (cases "registers s 6 = ConsoleInput K")
      case False
      then show ?thesis
        using c o by (simp add: h case_Read_other_handle [OF f] register_after_def k)
    next
      case True
      show ?thesis
        using assms(2) c o True
        by (auto simp add: h case_Read_console [OF True f] register_after_def returns_def k
            split: sum.splits)
    qed
  qed
  have wr: ?thesis if c: "registers s 2 = SC_Write K"
  proof -
    have h: "ExceptionHandler K (SYSCALL_EXCEPTION K) s = case_Write K s"
      using c by (rule dispatch(2) [OF d])
    have o: "SC_Write K \<noteq> SC_Read K" "SC_Write K \<noteq> SC_Join K" "SC_Write K \<noteq> SC_Exec K"
      using d by (auto simp: case_labels_def)
    have f: "0 \<le> sint (registers s 5)" "unat (registers s 5) \<le> stackRoom s"
      using assms(2) case_Write_returns [of K s] by (simp_all add: h)
    show ?thesis
    proof (cases "registers s 6 = ConsoleOutput K")
      case False
      then show ?thesis
        using c o by (simp add: h case_Write_other_handle [OF f] register_after_def k)
    next
      case True
      show ?thesis
        using assms(2) c o True
        by (auto simp add: h case_Write_console [OF True f] register_after_def returns_def k
            split: sum.splits)
    qed
  qed
  have jn: ?thesis if c: "registers s 2 = SC_Join K"
  proof -
    have h: "ExceptionHandler K (SYSCALL_EXCEPTION K) s = case_Join K s"
      using c by (rule dispatch(5) [OF d])
    have o: "SC_Join K \<noteq> SC_Read K" "SC_Join K \<noteq> SC_Write K" "SC_Join K \<noteq> SC_Exec K"
      using d by (auto simp: case_labels_def)
    show ?thesis
      using assms(2) c o
      by (auto simp add: h case_Join_def Let_def register_after_def returns_def k
          split: option.splits if_splits)
  qed
  have ex: ?thesis if c: "registers s 2 = SC_Exec K"
  proof -
    have h: "ExceptionHandler K (SYSCALL_EXCEPTION K) s = case_Exec K s"
      using c by (rule dispatch(6) [OF d])
    have o: "SC_Exec K \<noteq> SC_Read K" "SC_Exec K \<noteq> SC_Write K" "SC_Exec K \<noteq> SC_Join K"
      using d by (auto simp: case_labels_def)
    show ?thesis
    proof (cases "Open s (ReadStringFromUser (mainMemory s) (registers s 4) 256)")
      case None
      then show ?thesis
        using c o by (simp add: h case_Exec_def Let_def ReadRegister_def register_after_def k)
    next
      case (Some f)
      from case_Exec_found [OF Some, of K] obtain s3 where
        "case_Exec K s =
           Resumed (IncreasePC K (WriteRegister 2 (word_of_nat (first_free (pTable s))) s3))"
        "registers s3 = registers s" by blast
      then show ?thesis
        using c o Some by (simp add: h register_after_def k)
    qed
  qed
  show ?thesis
    using rd wr jn ex by blast
qed

theorem result_register_is_r2_witness:
  "machine_ok nachos \<and>
   returns (ExceptionHandler nachos 1 read_two) \<and>
   registers read_two 2 = SC_Read nachos \<and>
   register_after 2 (ExceptionHandler nachos 1 read_two) = Some 2 \<and>
   register_after 4 (ExceptionHandler nachos 1 read_two) = Some 200 \<and>
   returns (ExceptionHandler nachos 1 write_abc) \<and>
   registers write_abc 2 = SC_Write nachos \<and>
   register_after 2 (ExceptionHandler nachos 1 write_abc) = Some 3 \<and>
   register_after 4 (ExceptionHandler nachos 1 write_abc) = Some 100 \<and>
   returns (ExceptionHandler nachos 1 parent_joins) \<and>
   registers parent_joins 2 = SC_Join nachos \<and>
   register_after 2 (ExceptionHandler nachos 1 parent_joins) = Some 0 \<and>
   register_after 4 (ExceptionHandler nachos 1 parent_joins) = Some 1 \<and>
   returns (ExceptionHandler nachos 1 exec_prog) \<and>
   registers exec_prog 2 = SC_Exec nachos \<and>
   register_after 2 (ExceptionHandler nachos 1 exec_prog) = Some 1 \<and>
   register_after 4 (ExceptionHandler nachos 1 exec_prog) = Some 100"
proof -
  have c: "SYSCALL_EXCEPTION nachos = 1" by (simp add: nachos_fields)
  have r1: "returns (ExceptionHandler nachos (SYSCALL_EXCEPTION nachos) read_two)"
    using two_read_into_memory unfolding c
    by (auto simp add: dispatch_nachos case_Read_console returns_def console_requests
        nachos_fields stack_of_requests)
  have r2: "returns (ExceptionHandler nachos (SYSCALL_EXCEPTION nachos) write_abc)"
    unfolding c
    by (simp add: dispatch_nachos case_Write_console returns_def console_requests
        nachos_fields stack_of_requests abc_in_memory)
  have r3: "returns (ExceptionHandler nachos (SYSCALL_EXCEPTION nachos) parent_joins)"
    unfolding c
    by (simp add: dispatch_nachos case_Join_def Let_def ReadRegister_def finished_def
        returns_def parent_joins_request child_after_exit)
  have n: "ReadStringFromUser (mainMemory exec_prog) 100 256 = ''prog''"
    by (simp add: exec_prog_def trap_def poke_def boot_def Create_def ReadStringFromUser.simps)
  have o: "Open exec_prog ''prog'' = Some (OpenFile ''prog'')"
    by (simp add: Open_def exec_prog_def trap_def poke_def Create_def)
  have t: "first_free (pTable exec_prog) = 1"
    by (simp add: exec_prog_def trap_def poke_def Create_def boot_def)
  have r4: "returns (ExceptionHandler nachos (SYSCALL_EXCEPTION nachos) exec_prog)"
    using case_Exec_found [of exec_prog "OpenFile ''prog''" nachos] n o unfolding c
    by (auto simp add: dispatch_nachos returns_def exec_prog_request)
  show ?thesis
    using machine_ok_nachos r1 r2 r3 r4
      result_register_is_r2 [OF machine_ok_nachos r1]
      result_register_is_r2 [OF machine_ok_nachos r2]
      result_register_is_r2 [OF machine_ok_nachos r3]
      result_register_is_r2 [OF machine_ok_nachos r4]
    by (simp add: nachos_fields console_requests parent_joins_request exec_prog_request n o t)
qed

text \<open>
  C3 as stated fails: a Write of three characters to the console returns the result 3 in
  register 2, and the first argument register 4 still holds the address 100 of the
  caller's buffer.
\<close>

theorem first_argument_register_counterexample:
  "registers write_abc 2 = SC_Write nachos \<and>
   registers write_abc 4 = 100 \<and>
   register_after 2 (ExceptionHandler nachos 1 write_abc) = Some 3 \<and>
   register_after 4 (ExceptionHandler nachos 1 write_abc) = Some 100 \<and>
   console_out_after (ExceptionHandler nachos 1 write_abc) = Some ''abc''"
proof -
  have h: "ExceptionHandler nachos 1 write_abc = case_Write nachos write_abc"
    by (simp add: dispatch_nachos console_requests)
  have r: "registers write_abc 6 = ConsoleOutput nachos" "0 \<le> sint (registers write_abc 5)"
    "unat (registers write_abc 5) \<le> stackRoom write_abc"
    by (simp_all add: nachos_fields console_requests stack_of_requests)
  have o: "consoleOut write_abc = []" "unat (registers write_abc 5) = 3"
    by (simp_all add: write_abc_def trap_def poke_def boot_def)
  show ?thesis
    by (simp add: h case_Write_console [OF r] observers IncreasePC_keeps nachos_fields o
        console_requests abc_in_memory)
qed

subsection \<open>Read and Write\<close>

text \<open>
  C6, as amended. Take a Read or a Write whose size is not negative and fits the room
  left on the kernel stack. With a handle that is not the console handle of the request
  nothing is transferred and the result is 0: the kernel differs from the one the trap
  found in its registers only. A Read on the console-input handle whose buffer lies in
  mapped user memory takes exactly \<open>size\<close> characters from the console, stores them at
  the caller's address and returns \<open>size\<close>; a Write on the console-output handle whose
  buffer lies in mapped user memory sends exactly the \<open>size\<close> characters at the caller's
  address to the console and returns \<open>size\<close>.
\<close>

theorem console_transfer:
  assumes "machine_ok K"
    and "0 \<le> sint (registers s 5)" and "unat (registers s 5) \<le> stackRoom s"
  shows
    "(registers s 2 = SC_Read K \<and> registers s 6 \<noteq> ConsoleInput K \<longrightarrow>
        register_after 2 (ExceptionHandler K (SYSCALL_EXCEPTION K) s) = Some 0 \<and>
        (\<exists>regs. ExceptionHandler K (SYSCALL_EXCEPTION K) s = Resumed (s\<lparr>registers := regs\<rparr>))) \<and>
     (registers s 2 = SC_Write K \<and> registers s 6 \<noteq> ConsoleOutput K \<longrightarrow>
        register_after 2 (ExceptionHandler K (SYSCALL_EXCEPTION K) s) = Some 0 \<and>
        (\<exists>regs. ExceptionHandler K (SYSCALL_EXCEPTION K) s = Resumed (s\<lparr>registers := regs\<rparr>))) \<and>
     (\<forall>m. registers s 2 = SC_Read K \<and> registers s 6 = ConsoleInput K \<and>
        WriteBufferToUser (mapped s) (map (consoleIn s) [0..<unat (registers s 5)])
          (registers s 4) (mainMemory s) = Inr m \<longrightarrow>
        register_after 2 (ExceptionHandler K (SYSCALL_EXCEPTION K) s) = Some (registers s 5) \<and>
        console_in_after (ExceptionHandler K (SYSCALL_EXCEPTION K) s) =
          Some (\<lambda>k. consoleIn s (k + unat (registers s 5))) \<and>
        memory_after (ExceptionHandler K (SYSCALL_EXCEPTION K) s) = Some m \<and>
        console_out_after (ExceptionHandler K (SYSCALL_EXCEPTION K) s) = Some (consoleOut s)) \<and>
     (\<forall>cs. registers s 2 = SC_Write K \<and> registers s 6 = ConsoleOutput K \<and>
        ReadBufferFromUser (mapped s) (mainMemory s) (registers s 4) (unat (registers s 5)) =
          Inr cs \<longrightarrow>
        length cs = unat (registers s 5) \<and>
        register_after 2 (ExceptionHandler K (SYSCALL_EXCEPTION K) s) = Some (registers s 5) \<and>
        console_out_after (ExceptionHandler K (SYSCALL_EXCEPTION K) s) =
          Some (consoleOut s @ cs) \<and>
        console_in_after (ExceptionHandler K (SYSCALL_EXCEPTION K) s) = Some (consoleIn s) \<and>
        memory_after (ExceptionHandler K (SYSCALL_EXCEPTION K) s) = Some (mainMemory s))"
proof -
  have d: "distinct (case_labels K)"
    and p: "2 \<noteq> PC_REG K" "2 \<noteq> NEXT_PC_REG K" "2 \<noteq> PREV_PC_REG K"
    using assms(1) by (auto simp: machine_ok_def pc_registers_def)
  note k = IncreasePC_keeps [OF p]
  note f = assms(2,3)
  have e: "\<exists>regs. IncreasePC K (WriteRegister 2 0 s) = s\<lparr>registers := regs\<rparr>"
    by (rule exI [where x = "registers (IncreasePC K (WriteRegister 2 0 s))"])
      (rule result_written_only_registers)
  have a: "registers s 2 = SC_Read K \<Longrightarrow> registers s 6 \<noteq> ConsoleInput K \<Longrightarrow>
      register_after 2 (ExceptionHandler K (SYSCALL_EXCEPTION K) s) = Some 0 \<and>
      (\<exists>regs. ExceptionHandler K (SYSCALL_EXCEPTION K) s = Resumed (s\<lparr>registers := regs\<rparr>))"
    using e by (simp add: dispatch(1) [OF d] case_Read_other_handle [OF f] register_after_def k)
  have b: "registers s 2 = SC_Write K \<Longrightarrow> registers s 6 \<noteq> ConsoleOutput K \<Longrightarrow>
      register_after 2 (ExceptionHandler K (SYSCALL_EXCEPTION K) s) = Some 0 \<and>
      (\<exists>regs. ExceptionHandler K (SYSCALL_EXCEPTION K) s = Resumed (s\<lparr>registers := regs\<rparr>))"
    using e by (simp add: dispatch(2) [OF d] case_Write_other_handle [OF f] register_after_def k)
  have c: "registers s 2 = SC_Read K \<Longrightarrow> registers s 6 = ConsoleInput K \<Longrightarrow>
      WriteBufferToUser (mapped s) (map (consoleIn s) [0..<unat (registers s 5)])
        (registers s 4) (mainMemory s) = Inr m \<Longrightarrow>
      register_after 2 (ExceptionHandler K (SYSCALL_EXCEPTION K) s) = Some (registers s 5) \<and>
      console_in_after (ExceptionHandler K (SYSCALL_EXCEPTION K) s) =
        Some (\<lambda>k. consoleIn s (k + unat (registers s 5))) \<and>
      memory_after (ExceptionHandler K (SYSCALL_EXCEPTION K) s) = Some m \<and>
      console_out_after (ExceptionHandler K (SYSCALL_EXCEPTION K) s) = Some (consoleOut s)"
    for m
    using f by (simp add: dispatch(1) [OF d] case_Read_console observers k)
  have w: "registers s 2 = SC_Write K \<Longrightarrow> registers s 6 = ConsoleOutput K \<Longrightarrow>
      ReadBufferFromUser (mapped s) (mainMemory s) (registers s 4) (unat (registers s 5)) =
        Inr cs \<Longrightarrow>
      length cs = unat (registers s 5) \<and>
      register_after 2 (ExceptionHandler K (SYSCALL_EXCEPTION K) s) = Some (registers s 5) \<and>
      console_out_after (ExceptionHandler K (SYSCALL_EXCEPTION K) s) =
        Some (consoleOut s @ cs) \<and>
      console_in_after (ExceptionHandler K (SYSCALL_EXCEPTION K) s) = Some (consoleIn s) \<and>
      memory_after (ExceptionHandler K (SYSCALL_EXCEPTION K) s) = Some (mainMemory s)"
    for cs
    using f length_ReadBufferFromUser [of "mapped s" "mainMemory s" "registers s 4"
        "unat (registers s 5)" cs]
    by (simp add: dispatch(2) [OF d] case_Write_console observers k)
  show ?thesis
    using a b c w by blast
qed

theorem console_transfer_witness:
  "machine_ok nachos \<and>
   0 \<le> sint (registers read_other_handle 5) \<and>
   unat (registers read_other_handle 5) \<le> stackRoom read_other_handle \<and>
   registers read_other_handle 2 = SC_Read nachos \<and>
   registers read_other_handle 6 \<noteq> ConsoleInput nachos \<and>
   register_after 2 (ExceptionHandler nachos 1 read_other_handle) = Some 0 \<and>
   0 \<le> sint (registers write_other_handle 5) \<and>
   unat (registers write_other_handle 5) \<le> stackRoom write_other_handle \<and>
   registers write_other_handle 2 = SC_Write nachos \<and>
   registers write_other_handle 6 \<noteq> ConsoleOutput nachos \<and>
   register_after 2 (ExceptionHandler nachos 1 write_other_handle) = Some 0 \<and>
   0 \<le> sint (registers read_two 5) \<and>
   unat (registers read_two 5) \<le> stackRoom read_two \<and>
   registers read_two 2 = SC_Read nachos \<and>
   registers read_two 6 = ConsoleInput nachos \<and>
   (\<exists>m. WriteBufferToUser (mapped read_two) (map (consoleIn read_two) [0..<2]) 200
          (mainMemory read_two) = Inr m \<and>
        memory_after (ExceptionHandler nachos 1 read_two) = Some m \<and>
        m 200 = CHR ''a'' \<and> m 201 = CHR ''a'') \<and>
   register_after 2 (ExceptionHandler nachos 1 read_two) = Some 2 \<and>
   console_out_after (ExceptionHandler nachos 1 read_two) = Some [] \<and>
   0 \<le> sint (registers write_abc 5) \<and>
   unat (registers write_abc 5) \<le> stackRoom write_abc \<and>
   registers write_abc 2 = SC_Write nachos \<and>
   registers write_abc 6 = ConsoleOutput nachos \<and>
   ReadBufferFromUser (mapped write_abc) (mainMemory write_abc) 100 3 = Inr ''abc'' \<and>
   register_after 2 (ExceptionHandler nachos 1 write_abc) = Some 3 \<and>
   console_out_after (ExceptionHandler nachos 1 write_abc) = Some ''abc''"
proof -
  have o: "consoleOut write_abc = []" "consoleOut read_two = []"
    by (simp_all add: write_abc_def read_two_def request_kernel)
  have s1: "0 \<le> sint (registers read_other_handle 5)"
    "unat (registers read_other_handle 5) \<le> stackRoom read_other_handle"
    and s2: "0 \<le> sint (registers write_other_handle 5)"
    "unat (registers write_other_handle 5) \<le> stackRoom write_other_handle"
    and s3: "0 \<le> sint (registers read_two 5)"
    "unat (registers read_two 5) \<le> stackRoom read_two"
    and s4: "0 \<le> sint (registers write_abc 5)"
    "unat (registers write_abc 5) \<le> stackRoom write_abc"
    by (simp_all add: console_requests stack_of_requests)
  have m: "mapped read_two = mapped boot"
    by (simp add: read_two_def request_kernel)
  have q: "WriteBufferToUser (mapped read_two) (map (consoleIn read_two) [0..<2]) 200
      (mainMemory read_two) =
      Inr ((mainMemory read_two)(200 := CHR ''a'', 201 := CHR ''a''))"
    by (simp add: m numeral_2_eq_2 mapped_boot) (simp add: read_two_def request_kernel)
  have t3: "memory_after (ExceptionHandler nachos 1 read_two) =
      Some ((mainMemory read_two)(200 := CHR ''a'', 201 := CHR ''a'')) \<and>
    register_after 2 (ExceptionHandler nachos 1 read_two) = Some 2 \<and>
    console_out_after (ExceptionHandler nachos 1 read_two) = Some []"
    using console_transfer [OF machine_ok_nachos s3] q
    by (simp add: nachos_fields console_requests o)
  have t4: "register_after 2 (ExceptionHandler nachos 1 write_abc) = Some 3 \<and>
    console_out_after (ExceptionHandler nachos 1 write_abc) = Some ''abc''"
    using console_transfer [OF machine_ok_nachos s4] abc_in_memory
    by (simp add: nachos_fields console_requests o)
  have t1: "register_after 2 (ExceptionHandler nachos 1 read_other_handle) = Some 0"
    using console_transfer [OF machine_ok_nachos s1]
    by (simp add: nachos_fields console_requests)
  have t2: "register_after 2 (ExceptionHandler nachos 1 write_other_handle) = Some 0"
    using console_transfer [OF machine_ok_nachos s2]
    by (simp add: nachos_fields console_requests)
  have e: "\<exists>m. WriteBufferToUser (mapped read_two) (map (consoleIn read_two) [0..<2]) 200
          (mainMemory read_two) = Inr m \<and>
        memory_after (ExceptionHandler nachos 1 read_two) = Some m \<and>
        m 200 = CHR ''a'' \<and> m 201 = CHR ''a''"
    by (rule exI [where x = "(mainMemory read_two)(200 := CHR ''a'', 201 := CHR ''a'')"])
      (simp add: q t3)
  show ?thesis
    using machine_ok_nachos s1 s2 s3 s4 t1 t2 t3 t4 e abc_in_memory
    by (simp add: nachos_fields console_requests)
qed

text \<open>
  C6 as stated fails. The declaration of the buffer stands before the test of the
  handle: a Read with the size \<open>-1\<close> and a handle that is not a console handle does not
  return 0, and a Write with the size \<open>-1\<close> on the console-output handle does not return
  \<open>size\<close>; both declare an array of \<open>-1\<close> elements. A Write of 2000 characters to the
  console runs off a stack with 1024 bytes left, and a Write of three characters from
  the unmapped address 65536 ends in an addressing fault.
\<close>

theorem console_transfer_counterexample:
  "registers read_negative_other_handle 2 = SC_Read nachos \<and>
   registers read_negative_other_handle 6 \<noteq> ConsoleInput nachos \<and>
   registers read_negative_other_handle 5 = - 1 \<and>
   ExceptionHandler nachos 1 read_negative_other_handle = Undefined NegativeArraySize \<and>
   register_after 2 (ExceptionHandler nachos 1 read_negative_other_handle) \<noteq> Some 0 \<and>
   registers write_negative 2 = SC_Write nachos \<and>
   registers write_negative 6 = ConsoleOutput nachos \<and>
   registers write_negative 5 = - 1 \<and>
   ExceptionHandler nachos 1 write_negative = Undefined NegativeArraySize \<and>
   register_after 2 (ExceptionHandler nachos 1 write_negative) \<noteq> Some (- 1) \<and>
   registers write_too_large 2 = SC_Write nachos \<and>
   registers write_too_large 6 = ConsoleOutput nachos \<and>
   registers write_too_large 5 = 2000 \<and>
   stackRoom write_too_large = 1024 \<and>
   ExceptionHandler nachos 1 write_too_large = Undefined StackOverflow \<and>
   registers write_unmapped 2 = SC_Write nachos \<and>
   registers write_unmapped 6 = ConsoleOutput nachos \<and>
   registers write_unmapped 4 = 65536 \<and>
   \<not> mapped write_unmapped 65536 \<and>
   ExceptionHandler nachos 1 write_unmapped = Undefined AddressingFault"
proof -
  have m: "\<not> mapped write_unmapped 65536"
    by (simp add: write_unmapped_def request_kernel)
  have l: "0 \<le> sint (2000 :: word32)" "unat (2000 :: word32) = 2000"
    "0 \<le> sint (3 :: word32)" "unat (3 :: word32) = 3"
    by simp_all
  have u: "ExceptionHandler nachos 1 write_unmapped = Undefined AddressingFault"
    by (simp add: dispatch_nachos faulting_requests case_Write_console nachos_fields
        stack_of_requests l unmapped_buffers)
  show ?thesis
    by (simp add: dispatch_nachos console_requests faulting_requests nachos_fields
        case_Read_negative case_Write_negative case_Write_too_large stack_of_requests l
        register_after_def m u)
qed

text \<open>
  C10. The size register of Read and Write reaches the declaration of the buffer as it
  comes, before the handle is looked at: a negative size declares an array of a negative
  number of elements, and a size beyond the room left on the kernel stack runs off the
  stack; no size is turned down with an error. On a console handle every size that is
  not negative and that the stack has room for is served in full: \<open>size\<close> characters are
  transferred and \<open>size\<close> is returned. The loops compare the unsigned counter with
  \<open>size\<close>: for a negative size their bound is at least \<open>2^31\<close> iterations, over a buffer
  that has no element, so their first iteration is outside the buffer.
\<close>

theorem size_register_unchecked:
  assumes "distinct (case_labels K)"
    and "registers s 2 = SC_Read K \<or> registers s 2 = SC_Write K"
  shows
    "(sint (registers s 5) < 0 \<longrightarrow>
        ExceptionHandler K (SYSCALL_EXCEPTION K) s = Undefined NegativeArraySize \<and>
        2 ^ 31 \<le> unat (registers s 5) \<and>
        Read_loop 0 (unat (registers s 5)) (sint (registers s 5)) [] s = Inl BufferOverrun \<and>
        Write_loop 0 (unat (registers s 5)) (sint (registers s 5)) [] s = Inl BufferOverrun) \<and>
     (0 \<le> sint (registers s 5) \<and> stackRoom s < unat (registers s 5) \<longrightarrow>
        ExceptionHandler K (SYSCALL_EXCEPTION K) s = Undefined StackOverflow) \<and>
     (\<forall>m. 0 \<le> sint (registers s 5) \<and> unat (registers s 5) \<le> stackRoom s \<and>
        registers s 2 = SC_Read K \<and> registers s 6 = ConsoleInput K \<and>
        WriteBufferToUser (mapped s) (map (consoleIn s) [0..<unat (registers s 5)])
          (registers s 4) (mainMemory s) = Inr m \<longrightarrow>
        ExceptionHandler K (SYSCALL_EXCEPTION K) s =
          Resumed (IncreasePC K (WriteRegister 2 (registers s 5)
            (s\<lparr>consoleIn := (\<lambda>k. consoleIn s (k + unat (registers s 5))),
               mainMemory := m\<rparr>)))) \<and>
     (\<forall>cs. 0 \<le> sint (registers s 5) \<and> unat (registers s 5) \<le> stackRoom s \<and>
        registers s 2 = SC_Write K \<and> registers s 6 = ConsoleOutput K \<and>
        ReadBufferFromUser (mapped s) (mainMemory s) (registers s 4) (unat (registers s 5)) =
          Inr cs \<longrightarrow>
        length cs = unat (registers s 5) \<and>
        ExceptionHandler K (SYSCALL_EXCEPTION K) s =
          Resumed (IncreasePC K (WriteRegister 2 (registers s 5)
            (s\<lparr>consoleOut := consoleOut s @ cs\<rparr>))))"
proof -
  note d = assms(1)
  have o: "SC_Read K \<noteq> SC_Write K"
    using d by (auto simp: case_labels_def)
  have h: "ExceptionHandler K (SYSCALL_EXCEPTION K) s = case_Read K s \<and>
        registers s 2 = SC_Read K \<or>
      ExceptionHandler K (SYSCALL_EXCEPTION K) s = case_Write K s \<and>
        registers s 2 = SC_Write K"
    using assms(2) dispatch(1,2) [OF d, of s] by auto
  have n: "sint (registers s 5) < 0 \<Longrightarrow>
      ExceptionHandler K (SYSCALL_EXCEPTION K) s = Undefined NegativeArraySize \<and>
      2 ^ 31 \<le> unat (registers s 5) \<and>
      Read_loop 0 (unat (registers s 5)) (sint (registers s 5)) [] s = Inl BufferOverrun \<and>
      Write_loop 0 (unat (registers s 5)) (sint (registers s 5)) [] s = Inl BufferOverrun"
    using h sint_neg [of "registers s 5"]
    by (auto simp add: case_Read_negative case_Write_negative Read_loop_overrun
        Write_loop_overrun unat_pos_of_negative)
  have l: "0 \<le> sint (registers s 5) \<Longrightarrow> stackRoom s < unat (registers s 5) \<Longrightarrow>
      ExceptionHandler K (SYSCALL_EXCEPTION K) s = Undefined StackOverflow"
    using h by (auto simp add: case_Read_too_large case_Write_too_large)
  have r: "0 \<le> sint (registers s 5) \<Longrightarrow> unat (registers s 5) \<le> stackRoom s \<Longrightarrow>
      registers s 2 = SC_Read K \<Longrightarrow> registers s 6 = ConsoleInput K \<Longrightarrow>
      WriteBufferToUser (mapped s) (map (consoleIn s) [0..<unat (registers s 5)])
        (registers s 4) (mainMemory s) = Inr m \<Longrightarrow>
      ExceptionHandler K (SYSCALL_EXCEPTION K) s =
        Resumed (IncreasePC K (WriteRegister 2 (registers s 5)
          (s\<lparr>consoleIn := (\<lambda>k. consoleIn s (k + unat (registers s 5))),
             mainMemory := m\<rparr>)))" for m
    using h o by (auto simp add: case_Read_console)
  have w: "0 \<le> sint (registers s 5) \<Longrightarrow> unat (registers s 5) \<le> stackRoom s \<Longrightarrow>
      registers s 2 = SC_Write K \<Longrightarrow> registers s 6 = ConsoleOutput K \<Longrightarrow>
      ReadBufferFromUser (mapped s) (mainMemory s) (registers s 4) (unat (registers s 5)) =
        Inr cs \<Longrightarrow>
      length cs = unat (registers s 5) \<and>
      ExceptionHandler K (SYSCALL_EXCEPTION K) s =
        Resumed (IncreasePC K (WriteRegister 2 (registers s 5)
          (s\<lparr>consoleOut := consoleOut s @ cs\<rparr>)))" for cs
    using h o length_ReadBufferFromUser [of "mapped s" "mainMemory s" "registers s 4"
        "unat (registers s 5)" cs]
    by (auto simp add: case_Write_console)
  show ?thesis
    using n l r w by blast
qed

theorem size_register_unchecked_witness:
  "distinct (case_labels nachos) \<and>
   registers read_negative 2 = SC_Read nachos \<and>
   sint (registers read_negative 5) < 0 \<and>
   unat (registers read_negative 5) = 4294967295 \<and>
   ExceptionHandler nachos 1 read_negative = Undefined NegativeArraySize \<and>
   registers write_negative_other_handle 2 = SC_Write nachos \<and>
   sint (registers write_negative_other_handle 5) < 0 \<and>
   ExceptionHandler nachos 1 write_negative_other_handle = Undefined NegativeArraySize \<and>
   registers read_too_large 2 = SC_Read nachos \<and>
   0 \<le> sint (registers read_too_large 5) \<and>
   stackRoom read_too_large < unat (registers read_too_large 5) \<and>
   ExceptionHandler nachos 1 read_too_large = Undefined StackOverflow \<and>
   registers write_too_large 2 = SC_Write nachos \<and>
   0 \<le> sint (registers write_too_large 5) \<and>
   stackRoom write_too_large < unat (registers write_too_large 5) \<and>
   ExceptionHandler nachos 1 write_too_large = Undefined StackOverflow \<and>
   registers read_two 2 = SC_Read nachos \<and>
   registers read_two 6 = ConsoleInput nachos \<and>
   0 \<le> sint (registers read_two 5) \<and>
   unat (registers read_two 5) \<le> stackRoom read_two \<and>
   register_after 2 (ExceptionHandler nachos 1 read_two) = Some 2 \<and>
   registers write_abc 2 = SC_Write nachos \<and>
   registers write_abc 6 = ConsoleOutput nachos \<and>
   0 \<le> sint (registers write_abc 5) \<and>
   unat (registers write_abc 5) \<le> stackRoom write_abc \<and>
   ReadBufferFromUser (mapped write_abc) (mainMemory write_abc) 100 3 = Inr ''abc'' \<and>
   register_after 2 (ExceptionHandler nachos 1 write_abc) = Some 3 \<and>
   console_out_after (ExceptionHandler nachos 1 write_abc) = Some ''abc''"
proof -
  have k: "SC_Read nachos = 6" "SC_Write nachos = 7" "SYSCALL_EXCEPTION nachos = 1"
    by (simp_all add: nachos_fields)
  have a1: "registers read_negative 2 = SC_Read nachos \<or>
      registers read_negative 2 = SC_Write nachos"
    and a2: "registers write_negative_other_handle 2 = SC_Read nachos \<or>
      registers write_negative_other_handle 2 = SC_Write nachos"
    and a3: "registers read_too_large 2 = SC_Read nachos \<or>
      registers read_too_large 2 = SC_Write nachos"
    and a4: "registers write_too_large 2 = SC_Read nachos \<or>
      registers write_too_large 2 = SC_Write nachos"
    and a5: "registers read_two 2 = SC_Read nachos \<or> registers read_two 2 = SC_Write nachos"
    and a6: "registers write_abc 2 = SC_Read nachos \<or> registers write_abc 2 = SC_Write nachos"
    by (simp_all add: k console_requests faulting_requests)
  have l: "0 \<le> sint (2000 :: word32)" "unat (2000 :: word32) = 2000"
    by simp_all
  have o: "consoleOut write_abc = []"
    by (simp add: write_abc_def request_kernel)
  have m: "mapped read_two = mapped boot"
    by (simp add: read_two_def request_kernel)
  have q: "WriteBufferToUser (mapped read_two) (map (consoleIn read_two) [0..<2]) 200
      (mainMemory read_two) =
      Inr ((mainMemory read_two)(200 := CHR ''a'', 201 := CHR ''a''))"
    by (simp add: m numeral_2_eq_2 mapped_boot) (simp add: read_two_def request_kernel)
  have p: "2 \<noteq> PC_REG nachos" "2 \<noteq> NEXT_PC_REG nachos" "2 \<noteq> PREV_PC_REG nachos"
    by (simp_all add: nachos_fields)
  have t5: "register_after 2 (ExceptionHandler nachos 1 read_two) = Some 2"
    using size_register_unchecked [OF nachos_labels a5] q
    by (simp add: nachos_fields console_requests stack_of_requests register_after_def
        IncreasePC_keeps [OF p])
  have t6: "register_after 2 (ExceptionHandler nachos 1 write_abc) = Some 3 \<and>
      console_out_after (ExceptionHandler nachos 1 write_abc) = Some ''abc''"
    using size_register_unchecked [OF nachos_labels a6] abc_in_memory
    by (simp add: nachos_fields console_requests stack_of_requests observers o
        IncreasePC_keeps [OF p])
  show ?thesis
    using nachos_labels t5 t6 abc_in_memory
      size_register_unchecked [OF nachos_labels a1]
      size_register_unchecked [OF nachos_labels a2]
      size_register_unchecked [OF nachos_labels a3]
      size_register_unchecked [OF nachos_labels a4]
    by (simp add: nachos_fields console_requests faulting_requests stack_of_requests l
        unat_minus_one_32)
qed

end
